theory Spec2Isabelle
  imports Complex_Main
begin

section \<open>Text primitives of the extraction engine\<close>

text \<open>
  The engine of \<^verbatim>\<open>src/era/pdf_extractor.py\<close> works on Python strings. A string is
  modelled as a \<^typ>\<open>string\<close> whose characters are the code points below 256, which is
  where every character class used by the amount normaliser, the column mapper and the
  document classifier lives: \<^verbatim>\<open>\d\<close> is the ten ASCII digits there, and
  \<^verbatim>\<open>\s\<close> and \<^verbatim>\<open>str.strip()\<close> agree on the twelve white-space code points.
\<close>

definition is_digit :: "char \<Rightarrow> bool" where
  "is_digit c = (c \<in> set ''0123456789'')"

definition is_space :: "char \<Rightarrow> bool" where
  "is_space c = (c \<in> set [CHR 0x09, CHR 0x0A, CHR 0x0B, CHR 0x0C, CHR 0x0D,
                            CHR 0x1C, CHR 0x1D, CHR 0x1E, CHR 0x1F, CHR 0x20,
                            CHR 0x85, CHR 0xA0])"

text \<open>\<^verbatim>\<open>s.strip()\<close>: white space is removed at both ends.\<close>

definition strip :: "string \<Rightarrow> string" where
  "strip s = rev (dropWhile is_space (rev (dropWhile is_space s)))"

section \<open>The amount normaliser\<close>

text \<open>
  \<^verbatim>\<open>re.sub(r"(?<=\d)\s+(?=\d)", "", s)\<close>: a run of white space is removed exactly when a
  digit stands immediately before it and a digit immediately after it. The flag says that
  a digit precedes the current position, with nothing but removed white space in between.
\<close>

definition ws_then_digit :: "string \<Rightarrow> bool" where
  "ws_then_digit cs = (case dropWhile is_space cs of [] \<Rightarrow> False | d # _ \<Rightarrow> is_digit d)"

fun remove_inner_ws :: "bool \<Rightarrow> string \<Rightarrow> string" where
  "remove_inner_ws prev [] = []"
| "remove_inner_ws prev (c # cs) =
     (if prev \<and> is_space c \<and> ws_then_digit cs then remove_inner_ws True cs
      else c # remove_inner_ws (is_digit c) cs)"

text \<open>
  The two grouped shapes, \<^verbatim>\<open>^\d{1,3}(\.\d{3})+,\d{2}$\<close> and
  \<^verbatim>\<open>^\d{1,3}(,\d{3})+\.\d{2}$\<close>, differ only in which character separates the groups
  and which one is the decimal mark. Python's \<^verbatim>\<open>$\<close> also matches before one final
  line feed.
\<close>

definition dec_tail :: "char \<Rightarrow> string \<Rightarrow> bool" where
  "dec_tail dec s =
     (case s of
        [a, b, c] \<Rightarrow> a = dec \<and> is_digit b \<and> is_digit c
      | [a, b, c, d] \<Rightarrow> a = dec \<and> is_digit b \<and> is_digit c \<and> d = CHR 0x0A
      | _ \<Rightarrow> False)"

fun sep_groups :: "char \<Rightarrow> char \<Rightarrow> string \<Rightarrow> bool" where
  "sep_groups sep dec (a # b # c # d # rest) =
     (a = sep \<and> is_digit b \<and> is_digit c \<and> is_digit d \<and>
      (sep_groups sep dec rest \<or> dec_tail dec rest))"
| "sep_groups sep dec _ = False"

definition grouped_amount :: "char \<Rightarrow> char \<Rightarrow> string \<Rightarrow> bool" where
  "grouped_amount sep dec s =
     (let lead = takeWhile is_digit s
      in 1 \<le> length lead \<and> length lead \<le> 3 \<and> sep_groups sep dec (dropWhile is_digit s))"

text \<open>
  \<^verbatim>\<open>float(cleaned)\<close> succeeds or raises ValueError. At that point \<^verbatim>\<open>cleaned\<close> holds
  digits and dots only, and such a string is a float literal exactly when it is digits
  with at most one dot and at least one digit.
\<close>

definition float_parses :: "string \<Rightarrow> bool" where
  "float_parses s =
     (let whole = takeWhile is_digit s
      in case dropWhile is_digit s of
           [] \<Rightarrow> whole \<noteq> []
         | c # decimals \<Rightarrow> c = CHR ''.'' \<and> list_all is_digit decimals \<and> (whole \<noteq> [] \<or> decimals \<noteq> []))"

text \<open>
  \<^verbatim>\<open>_normalize_amount(raw)\<close>. The result is \<^verbatim>\<open>None\<close> for the empty string (the guard
  \<^verbatim>\<open>if not raw\<close>), otherwise a string.
\<close>

definition normalize_amount :: "string \<Rightarrow> string option" where
  "normalize_amount raw =
     (if raw = [] then None
      else
        let cleaned = remove_inner_ws False (strip raw);
            cleaned =
              (if grouped_amount (CHR ''.'') (CHR '','') cleaned
               then map (\<lambda>c. if c = CHR '','' then CHR ''.'' else c)
                        (filter (\<lambda>c. c \<noteq> CHR ''.'') cleaned)
               else if grouped_amount (CHR '','') (CHR ''.'') cleaned
               then filter (\<lambda>c. c \<noteq> CHR '','') cleaned
               else if CHR '','' \<in> set cleaned \<and> CHR ''.'' \<notin> set cleaned
               then map (\<lambda>c. if c = CHR '','' then CHR ''.'' else c) cleaned
               else cleaned);
            cleaned = filter (\<lambda>c. is_digit c \<or> c = CHR ''.'') cleaned
        in if float_parses cleaned then Some cleaned else Some (strip raw))"

text \<open>
  A canonical amount in the sense of the glossary: a numeric string with \<^verbatim>\<open>.\<close> as the
  decimal mark and no grouping separator.
\<close>

definition canonical_amount :: "string \<Rightarrow> bool" where
  "canonical_amount s =
     (list_all (\<lambda>c. is_digit c \<or> c = CHR ''.'') s \<and>
      list_ex is_digit s \<and> length (filter (\<lambda>c. c = CHR ''.'') s) \<le> 1)"

text \<open>The shape \<^verbatim>\<open>^\d+\.\d{2}$\<close> as the claim glosses it: digits, a dot, two digits.\<close>

definition two_decimals :: "string \<Rightarrow> bool" where
  "two_decimals x =
     (\<exists>ds a b. x = ds @ [CHR ''.'', a, b] \<and> ds \<noteq> [] \<and> list_all is_digit ds \<and>
                is_digit a \<and> is_digit b)"

text \<open>
  The contract of section 4.1 for one input: a string comes back, and it is a canonical
  amount or the trimmed input.
\<close>

definition normalizer_contract :: "string \<Rightarrow> bool" where
  "normalizer_contract raw =
     (case normalize_amount raw of
        None \<Rightarrow> False
      | Some s \<Rightarrow> canonical_amount s \<or> s = strip raw)"

section \<open>Line items from tables\<close>

text \<open>
  \<^verbatim>\<open>kw in header\<close>: the keyword occurs as a contiguous substring.
\<close>

fun starts_with :: "string \<Rightarrow> string \<Rightarrow> bool" where
  "starts_with [] s = True"
| "starts_with (k # ks) [] = False"
| "starts_with (k # ks) (c # cs) = (k = c \<and> starts_with ks cs)"

fun contains :: "string \<Rightarrow> string \<Rightarrow> bool" where
  "contains kw [] = (kw = [])"
| "contains kw (c # cs) = (starts_with kw (c # cs) \<or> contains kw cs)"

text \<open>
  \<^verbatim>\<open>s.lower()\<close> on code points below 256: the ASCII capitals and the Latin-1 capitals
  (0xC0 to 0xDE without the multiplication sign 0xD7) move up by 32.
\<close>

definition lower_char :: "char \<Rightarrow> char" where
  "lower_char c =
     (let n = (of_char c :: nat)
      in if (65 \<le> n \<and> n \<le> 90) \<or> (192 \<le> n \<and> n \<le> 222 \<and> n \<noteq> 215)
         then char_of (n + 32) else c)"

definition lower :: "string \<Rightarrow> string" where
  "lower s = map lower_char s"

text \<open>
  A table of the page reader is a list of rows, a row a list of cells, a cell a string or
  \<^verbatim>\<open>None\<close>. A cell is falsy when it is \<^verbatim>\<open>None\<close> or empty.
\<close>

type_synonym cell = "string option"
type_synonym row = "cell list"
type_synonym table = "row list"

definition truthy :: "cell \<Rightarrow> bool" where
  "truthy c = (case c of None \<Rightarrow> False | Some s \<Rightarrow> s \<noteq> [])"

datatype role =
  Description | Product_code | Quantity | Unit | Unit_price | Tax | Amount | Discount

text \<open>The dictionary \<^verbatim>\<open>role_keywords\<close>, in its insertion order.\<close>

definition role_keywords :: "(role \<times> string list) list" where
  "role_keywords =
     [(Description, [''description'', ''item'', ''product'', ''service'', ''beskrivelse'',
                     ''vare'', ''artikkel'', ''text'']),
      (Product_code, [''code'', ''sku'', ''item no'', ''art.nr'', ''varenr'',
                      ''product code'', ''item code'']),
      (Quantity, [''qty'', ''quantity'', ''antall'', ''mengde'', ''antal'', ''pcs'', ''units'']),
      (Unit, [''unit'', ''uom'', ''enhet'']),
      (Unit_price, [''unit price'', ''price'', ''rate'', ''pris'', ''enhetspris'',
                    CHR 0xE0 # '' pris'', ''unit cost'']),
      (Tax, [''tax'', ''vat'', ''mva'', ''gst'', ''moms'']),
      (Amount, [''amount'', ''total'', ''sum'', ''bel'' @ CHR 0xF8 # ''p'', ''line total'',
                ''extended'', ''netto'']),
      (Discount, [''discount'', ''rabatt''])]"

text \<open>\<^verbatim>\<open>any(kw in header for kw in keywords)\<close>\<close>

definition header_hits :: "string list \<Rightarrow> string \<Rightarrow> bool" where
  "header_hits keywords header = list_ex (\<lambda>kw. contains kw header) keywords"

text \<open>
  The inner loop of \<^verbatim>\<open>_map_line_item_columns\<close>: the index of the first header that
  holds one of the keywords; the scan stops there (\<^verbatim>\<open>break\<close>).
\<close>

fun first_header :: "string list \<Rightarrow> nat \<Rightarrow> string list \<Rightarrow> nat option" where
  "first_header keywords i [] = None"
| "first_header keywords i (h # hs) =
     (if header_hits keywords h then Some i else first_header keywords (Suc i) hs)"

text \<open>
  \<^verbatim>\<open>_map_line_item_columns(headers)\<close>. The role map is a dictionary, kept as the list of
  its entries in insertion order; the empty dictionary is returned unless the description
  or the amount role was mapped.
\<close>

definition scan_roles :: "string list \<Rightarrow> (role \<times> nat) list" where
  "scan_roles headers =
     List.map_filter
       (\<lambda>(r, keywords). map_option (Pair r) (first_header keywords 0 headers))
       role_keywords"

definition map_line_item_columns :: "string list \<Rightarrow> (role \<times> nat) list" where
  "map_line_item_columns headers =
     (let col_map = scan_roles headers
      in if Description \<in> fst ` set col_map \<or> Amount \<in> fst ` set col_map
         then col_map else [])"

text \<open>
  A line item is the dictionary built for one row: \<^verbatim>\<open>line_no\<close> and one entry per mapped
  role whose column the row has. The value of an entry is a string or \<^verbatim>\<open>None\<close> (what
  the normaliser returns for an empty cell).
\<close>

record line_item =
  line_no :: nat
  item_fields :: "(role \<times> string option) list"

text \<open>\<^verbatim>\<open>str(row[col_idx]).strip() if row[col_idx] else ""\<close>\<close>

definition cell_text :: "cell \<Rightarrow> string" where
  "cell_text c = (case c of None \<Rightarrow> [] | Some s \<Rightarrow> if s = [] then [] else strip s)"

definition numeric_role :: "role \<Rightarrow> bool" where
  "numeric_role r = (r \<in> {Quantity, Unit_price, Amount, Tax})"

definition item_entry :: "row \<Rightarrow> role \<times> nat \<Rightarrow> (role \<times> string option) option" where
  "item_entry r e =
     (case e of (rl, col_idx) \<Rightarrow>
        if col_idx < length r
        then (let cell_value = cell_text (r ! col_idx)
              in if numeric_role rl then Some (rl, normalize_amount cell_value)
                 else Some (rl, Some cell_value))
        else None)"

definition make_item :: "(role \<times> nat) list \<Rightarrow> nat \<Rightarrow> row \<Rightarrow> line_item" where
  "make_item col_map row_idx r =
     \<lparr>line_no = row_idx, item_fields = List.map_filter (item_entry r) col_map\<rparr>"

text \<open>\<^verbatim>\<open>item.get(role)\<close> is truthy: the key is there and its value is a non-empty string.\<close>

definition has_field :: "line_item \<Rightarrow> role \<Rightarrow> bool" where
  "has_field item rl =
     (case map_of (item_fields item) rl of Some (Some s) \<Rightarrow> s \<noteq> [] | _ \<Rightarrow> False)"

text \<open>The loop over \<^verbatim>\<open>enumerate(raw[1:], 1)\<close>.\<close>

fun rows_to_items :: "(role \<times> nat) list \<Rightarrow> nat \<Rightarrow> row list \<Rightarrow> line_item list" where
  "rows_to_items col_map row_idx [] = []"
| "rows_to_items col_map row_idx (r # rs) =
     (if r = [] \<or> list_all (\<lambda>c. \<not> truthy c) r
      then rows_to_items col_map (Suc row_idx) rs
      else
        let item = make_item col_map row_idx r
        in if has_field item Description \<or> has_field item Amount
           then item # rows_to_items col_map (Suc row_idx) rs
           else rows_to_items col_map (Suc row_idx) rs)"

text \<open>\<^verbatim>\<open>[str(h).strip().lower() if h else "" for h in raw[0]]\<close>\<close>

definition header_row :: "row \<Rightarrow> string list" where
  "header_row r = map (\<lambda>h. if truthy h then lower (strip (the h)) else []) r"

text \<open>One round of the loop over the tables in \<^verbatim>\<open>_extract_line_items\<close>.\<close>

definition table_items :: "table \<Rightarrow> line_item list" where
  "table_items raw =
     (case raw of
        hdr # body \<Rightarrow>
          if body = [] then []
          else
            let col_map = map_line_item_columns (header_row hdr)
            in if col_map = [] then [] else rows_to_items col_map 1 body
      | [] \<Rightarrow> [])"

definition extract_line_items :: "table list \<Rightarrow> line_item list" where
  "extract_line_items tables = concat (map table_items tables)"

text \<open>The keyword list of a role in \<^verbatim>\<open>role_keywords\<close>.\<close>

definition keywords_of :: "role \<Rightarrow> string list" where
  "keywords_of r = (case map_of role_keywords r of Some kws \<Rightarrow> kws | None \<Rightarrow> [])"

text \<open>
  The mapping rule of section 4.3 in the specification's words: header \<open>i\<close> is the first
  (leftmost) header containing any of the keywords.
\<close>

definition leftmost_hit :: "string list \<Rightarrow> string list \<Rightarrow> nat \<Rightarrow> bool" where
  "leftmost_hit keywords headers i =
     (i < length headers \<and> header_hits keywords (headers ! i) \<and>
      list_all (\<lambda>h. \<not> header_hits keywords h) (take i headers))"

text \<open>Some header holds a keyword of the role.\<close>

definition role_present :: "string list \<Rightarrow> role \<Rightarrow> bool" where
  "role_present headers r = list_ex (header_hits (keywords_of r)) headers"

section \<open>Double-precision numbers\<close>

text \<open>
  Confidences are Python floats, that is IEEE 754 doubles. A finite double is a rational
  number, so a float value is modelled by the rational it denotes, and every arithmetic
  operation is the exact operation followed by rounding to the nearest double, ties to
  even. The rounding scales the magnitude into the range of 53-bit integers, rounds there
  and scales back; it covers the normal range of doubles, which holds every confidence and
  every sum of weighted confidences.
\<close>

definition round_half_even :: "rat \<Rightarrow> int" where
  "round_half_even x =
     (let f = \<lfloor>x\<rfloor>; d = x - of_int f
      in if d < 1 / 2 then f else if 1 / 2 < d then f + 1
         else if even f then f else f + 1)"

fun normalise :: "nat \<Rightarrow> rat \<Rightarrow> int \<Rightarrow> rat \<times> int" where
  "normalise 0 x e = (x, e)"
| "normalise (Suc n) x e =
     (if 2 ^ 53 \<le> x then normalise n (x / 2) (e + 1)
      else if x < 2 ^ 52 then normalise n (x * 2) (e - 1)
      else (x, e))"

definition round_double :: "rat \<Rightarrow> rat" where
  "round_double x =
     (if x = 0 then 0
      else case normalise 2200 \<bar>x\<bar> 0 of
             (m, e) \<Rightarrow>
               sgn x * of_int (round_half_even m) *
               (if 0 \<le> e then 2 ^ nat e else 1 / 2 ^ nat (- e)))"

text \<open>A float literal of the source, such as \<^verbatim>\<open>0.90\<close>, is the double nearest to it.\<close>

definition float_lit :: "rat \<Rightarrow> rat" where
  "float_lit q = round_double q"

text \<open>
  \<^verbatim>\<open>round(x, 2)\<close>: the exact value of \<^verbatim>\<open>x\<close> is rounded to two decimals, ties to even,
  and the double nearest to that decimal is returned.
\<close>

definition py_round2 :: "rat \<Rightarrow> rat" where
  "py_round2 x = round_double (of_int (round_half_even (x * 100)) / 100)"

section \<open>The confidence aggregator\<close>

text \<open>
  \<^verbatim>\<open>field_confidences\<close> is a dictionary, kept as the list of its entries in insertion
  order; \<^verbatim>\<open>key_fields\<close> is a list. The loop of \<^verbatim>\<open>_calculate_weighted_confidence\<close>
  carries the pair \<^verbatim>\<open>(weighted_sum, total_weight)\<close>. The rounding \<open>rd\<close> applied after
  each product, sum and quotient is a parameter: the code runs with \<^const>\<open>round_double\<close>,
  exact arithmetic is the identity.
\<close>

fun accumulate_with ::
  "(rat \<Rightarrow> rat) \<Rightarrow> string list \<Rightarrow> (string \<times> rat) list \<Rightarrow> rat \<times> rat \<Rightarrow> rat \<times> rat" where
  "accumulate_with rd key_fields [] acc = acc"
| "accumulate_with rd key_fields ((field, conf) # rest) (weighted_sum, total_weight) =
     (let weight = (if field \<in> set key_fields then 2 else 1)
      in accumulate_with rd key_fields rest
           (rd (weighted_sum + rd (conf * weight)), rd (total_weight + weight)))"

definition calculate_with ::
  "(rat \<Rightarrow> rat) \<Rightarrow> (string \<times> rat) list \<Rightarrow> string list \<Rightarrow> rat" where
  "calculate_with rd field_confidences key_fields =
     (if field_confidences = [] then 0
      else
        case accumulate_with rd key_fields field_confidences (0, 0) of
          (weighted_sum, total_weight) \<Rightarrow>
            if total_weight > 0 then rd (weighted_sum / total_weight) else 0)"

definition calculate_weighted_confidence :: "(string \<times> rat) list \<Rightarrow> string list \<Rightarrow> rat" where
  "calculate_weighted_confidence = calculate_with round_double"

text \<open>
  The contract of section 4.4 in the specification's words: the weighted mean with weight
  2 for key fields and 1 for the others.
\<close>

definition field_weight :: "string list \<Rightarrow> string \<Rightarrow> rat" where
  "field_weight key_fields field = (if field \<in> set key_fields then 2 else 1)"

definition weighted_mean :: "(string \<times> rat) list \<Rightarrow> string list \<Rightarrow> rat" where
  "weighted_mean field_confidences key_fields =
     (\<Sum>(f, c)\<leftarrow>field_confidences. c * field_weight key_fields f) /
     (\<Sum>(f, c)\<leftarrow>field_confidences. field_weight key_fields f)"

text \<open>
  The same quotient in double arithmetic: the rounded products are added up from the left,
  each partial sum rounded, and so are the weights.
\<close>

definition double_sum :: "rat list \<Rightarrow> rat" where
  "double_sum xs = foldl (\<lambda>s x. round_double (s + x)) 0 xs"

definition double_weighted_mean :: "(string \<times> rat) list \<Rightarrow> string list \<Rightarrow> rat" where
  "double_weighted_mean field_confidences key_fields =
     (let s = double_sum (map (\<lambda>(f, c). round_double (c * field_weight key_fields f))
                              field_confidences);
          t = double_sum (map (\<lambda>(f, c). field_weight key_fields f) field_confidences)
      in if t > 0 then round_double (s / t) else 0)"

section \<open>The document reader and the document-type classifier\<close>

text \<open>
  The page reader (pdfplumber) is outside the engine. What the engine sees of it: opening
  the file gives the pages or raises; \<^verbatim>\<open>page.extract_text()\<close> gives a string or
  \<^verbatim>\<open>None\<close>, or raises; \<^verbatim>\<open>page.extract_tables()\<close> gives the tables or raises. A raised
  exception is \<open>Inl\<close> of its message.
\<close>

record page =
  extract_text :: "string + string option"
  extract_tables :: "string + table list"

type_synonym pdf = "string + page list"

datatype doc_type = Invoice | Contract | Statement | Generic

definition invoice_words :: "string list" where
  "invoice_words = [''invoice'', ''invoice no'', ''inv.'', ''bill'', ''faktura'',
                    ''fakturanr'', ''fakturanummer'']"

definition contract_words :: "string list" where
  "contract_words = [''contract'', ''agreement'', ''between'', ''kontrakt'', ''avtale'']"

definition statement_words :: "string list" where
  "statement_words = [''balance sheet'', ''income statement'', ''cash flow'', ''p&l'',
                      ''balanse'', ''resultatregnskap'']"

text \<open>\<^verbatim>\<open>any(word in first_page_text for word in words)\<close>\<close>

definition any_word_in :: "string list \<Rightarrow> string \<Rightarrow> bool" where
  "any_word_in ws t = list_ex (\<lambda>w. contains w t) ws"

definition classify_text :: "string \<Rightarrow> doc_type" where
  "classify_text first_page_text =
     (if any_word_in invoice_words first_page_text then Invoice
      else if any_word_in contract_words first_page_text then Contract
      else if any_word_in statement_words first_page_text then Statement
      else Generic)"

text \<open>\<^verbatim>\<open>x or ""\<close> for a string or \<^verbatim>\<open>None\<close>.\<close>

definition or_empty :: "string option \<Rightarrow> string" where
  "or_empty t = (case t of None \<Rightarrow> [] | Some s \<Rightarrow> s)"

text \<open>
  \<^verbatim>\<open>_detect_document_type\<close> of \<^verbatim>\<open>web/routes/era_dashboard.py\<close>. Any exception ends in
  the handler, after which the function returns \<^verbatim>\<open>"generic"\<close>.
\<close>

definition detect_document_type :: "pdf \<Rightarrow> doc_type" where
  "detect_document_type pdf =
     (case pdf of
        Inl exc \<Rightarrow> Generic
      | Inr pages \<Rightarrow>
          (case pages of
             [] \<Rightarrow> classify_text []
           | p # _ \<Rightarrow>
               (case extract_text p of
                  Inl exc \<Rightarrow> Generic
                | Inr t \<Rightarrow> classify_text (lower (or_empty t)))))"

section \<open>Regular expressions and the field extraction primitives\<close>

text \<open>
  The primitives search the text with Python's \<^verbatim>\<open>re\<close> module. The module is outside
  the engine and is a parameter of the model: every function below takes the matcher it
  runs on, and what is proved of it holds for every matcher. A pattern of the source is
  named by a constructor; its arguments are the label or the position in the list of
  alternatives that the source builds the pattern from.
\<close>

datatype date_shape = Iso_date | European_date | Textual_date | Compact_date

text \<open>The list \<^verbatim>\<open>DATE_PATTERNS\<close>.\<close>

definition DATE_PATTERNS :: "date_shape list" where
  "DATE_PATTERNS = [Iso_date, European_date, Textual_date, Compact_date]"

datatype regex =
    Re_invoice_number nat
  | Re_labeled_date string date_shape
  | Re_date date_shape
  | Re_labeled_amount string
  | Re_nearby_amount
  | Re_labeled_value string
  | Re_entity_name string
  | Re_legal_suffix
  | Re_address
  | Re_tax_id string
  | Re_tax_rate nat
  | Re_payment_terms nat
  | Re_bank_info nat
  | Re_currency_code string
  | Re_between
  | Re_party
  | Re_clause string
  | Re_period nat
  | Re_statement_line
  | Re_generic_amount
  | Re_email
  | Re_phone
  | Re_url

text \<open>
  What the engine uses of a match: \<^verbatim>\<open>re.search\<close> with \<^verbatim>\<open>group(1)\<close>, with
  \<^verbatim>\<open>group(1)\<close> and \<^verbatim>\<open>group(2)\<close>, or with \<^verbatim>\<open>group(0)\<close>; \<^verbatim>\<open>re.match\<close> with two
  groups; \<^verbatim>\<open>re.findall\<close>; and \<^verbatim>\<open>re.sub\<close> with the replacement of the source.
  \<^verbatim>\<open>list(set(xs))\<close> lists a set in an order the language does not fix; it is a
  parameter as well.
\<close>

record env =
  re_search :: "regex \<Rightarrow> string \<Rightarrow> string option"
  re_search2 :: "regex \<Rightarrow> string \<Rightarrow> (string \<times> string) option"
  re_search0 :: "regex \<Rightarrow> string \<Rightarrow> string option"
  re_match2 :: "regex \<Rightarrow> string \<Rightarrow> (string \<times> string) option"
  re_findall :: "regex \<Rightarrow> string \<Rightarrow> string list"
  re_sub :: "regex \<Rightarrow> string \<Rightarrow> string"
  list_of_set :: "string list \<Rightarrow> string list"

text \<open>A value of a field: \<^verbatim>\<open>None\<close>, a string, or a list of strings.\<close>

datatype field_value = VNone | VStr string | VList "string list"

text \<open>
  A loop that returns at the first round that yields a result, and falls through when no
  round does.
\<close>

fun first_some :: "('a \<Rightarrow> 'b option) \<Rightarrow> 'a list \<Rightarrow> 'b option" where
  "first_some f [] = None"
| "first_some f (x # xs) = (case f x of Some y \<Rightarrow> Some y | None \<Rightarrow> first_some f xs)"

text \<open>\<^verbatim>\<open>hay.find(needle)\<close>: the index of the first occurrence, \<open>None\<close> for \<^verbatim>\<open>-1\<close>.\<close>

fun find_from :: "nat \<Rightarrow> string \<Rightarrow> string \<Rightarrow> nat option" where
  "find_from i needle [] = (if needle = [] then Some i else None)"
| "find_from i needle (c # cs) =
     (if starts_with needle (c # cs) then Some i else find_from (Suc i) needle cs)"

definition find :: "string \<Rightarrow> string \<Rightarrow> nat option" where
  "find hay needle = find_from 0 needle hay"

text \<open>\<^verbatim>\<open>text[pos:pos + n]\<close>\<close>

definition slice :: "string \<Rightarrow> nat \<Rightarrow> nat \<Rightarrow> string" where
  "slice s pos n = take n (drop pos s)"

text \<open>\<^verbatim>\<open>text[label_pos:label_pos + n]\<close> for the first label position, if the label occurs.\<close>

definition nearby :: "string \<Rightarrow> string \<Rightarrow> nat \<Rightarrow> string option" where
  "nearby text label n = map_option (\<lambda>label_pos. slice text label_pos n) (find (lower text) (lower label))"

text \<open>\<^verbatim>\<open>_extract_invoice_number\<close>\<close>

definition invoice_number_patterns :: "(regex \<times> rat) list" where
  "invoice_number_patterns =
     [(Re_invoice_number 0, float_lit (19 / 20)), (Re_invoice_number 1, float_lit (9 / 10)),
      (Re_invoice_number 2, float_lit (17 / 20)), (Re_invoice_number 3, float_lit (7 / 10))]"

definition extract_invoice_number :: "env \<Rightarrow> string \<Rightarrow> field_value \<times> rat" where
  "extract_invoice_number re text =
     (case first_some
        (\<lambda>(pattern, conf).
           case re_search re pattern text of
             None \<Rightarrow> None
           | Some g \<Rightarrow>
               (let v = strip g
                in if 2 \<le> length v \<and> lower v \<notin> {''date'', ''to'', ''from'', ''number''}
                   then Some (VStr v, conf) else None))
        invoice_number_patterns of
        Some r \<Rightarrow> r
      | None \<Rightarrow> (VNone, 0))"

text \<open>\<^verbatim>\<open>_extract_labeled_date\<close>\<close>

definition extract_labeled_date :: "env \<Rightarrow> string \<Rightarrow> string list \<Rightarrow> field_value \<times> rat" where
  "extract_labeled_date re text labels =
     (case first_some
        (\<lambda>label. first_some
           (\<lambda>date_pat. map_option (\<lambda>g. (VStr (strip g), float_lit (9 / 10)))
                          (re_search re (Re_labeled_date label date_pat) text))
           DATE_PATTERNS)
        labels of
        Some r \<Rightarrow> r
      | None \<Rightarrow>
          (case first_some
             (\<lambda>label.
                case nearby text label 100 of
                  None \<Rightarrow> None
                | Some near \<Rightarrow> first_some
                    (\<lambda>date_pat. map_option (\<lambda>g. (VStr (strip g), float_lit (7 / 10)))
                                   (re_search re (Re_date date_pat) near))
                    DATE_PATTERNS)
             labels of
             Some r \<Rightarrow> r
           | None \<Rightarrow> (VNone, 0)))"

text \<open>
  \<^verbatim>\<open>_extract_labeled_amount\<close>; \<^verbatim>\<open>if normalized:\<close> holds for a string that is not
  empty.
\<close>

definition extract_labeled_amount :: "env \<Rightarrow> string \<Rightarrow> string list \<Rightarrow> field_value \<times> rat" where
  "extract_labeled_amount re text labels =
     (case first_some
        (\<lambda>label.
           case re_search re (Re_labeled_amount label) text of
             None \<Rightarrow> None
           | Some g \<Rightarrow>
               (case normalize_amount (strip g) of
                  None \<Rightarrow> None
                | Some normalized \<Rightarrow>
                    if normalized \<noteq> [] then Some (VStr normalized, float_lit (9 / 10))
                    else None))
        labels of
        Some r \<Rightarrow> r
      | None \<Rightarrow>
          (case first_some
             (\<lambda>label.
                case nearby text label 80 of
                  None \<Rightarrow> None
                | Some near \<Rightarrow>
                    (let amounts = re_findall re Re_nearby_amount near
                     in if amounts \<noteq> []
                        then (case normalize_amount (last amounts) of
                                None \<Rightarrow> None
                              | Some normalized \<Rightarrow>
                                  if normalized \<noteq> []
                                  then Some (VStr normalized, float_lit (13 / 20))
                                  else None)
                        else None))
             labels of
             Some r \<Rightarrow> r
           | None \<Rightarrow> (VNone, 0)))"

text \<open>\<^verbatim>\<open>s.rstrip(".")\<close>\<close>

definition rstrip_dots :: "string \<Rightarrow> string" where
  "rstrip_dots s = rev (dropWhile (\<lambda>c. c = CHR ''.'') (rev s))"

text \<open>\<^verbatim>\<open>_extract_labeled_value\<close>\<close>

definition extract_labeled_value :: "env \<Rightarrow> string \<Rightarrow> string list \<Rightarrow> field_value \<times> rat" where
  "extract_labeled_value re text labels =
     (case first_some
        (\<lambda>label.
           case re_search re (Re_labeled_value label) text of
             None \<Rightarrow> None
           | Some g \<Rightarrow>
               (let v = rstrip_dots (strip g)
                in if v \<noteq> [] \<and> 1 < length v then Some (VStr v, float_lit (4 / 5)) else None))
        labels of
        Some r \<Rightarrow> r
      | None \<Rightarrow> (VNone, 0))"

text \<open>
  \<^verbatim>\<open>s.isdigit()\<close> on code points below 256: the string is not empty and holds ASCII
  digits and the superscript digits one, two and three only.
\<close>

definition isdigit :: "string \<Rightarrow> bool" where
  "isdigit s =
     (s \<noteq> [] \<and> list_all (\<lambda>c. is_digit c \<or> c \<in> {CHR 0xB2, CHR 0xB3, CHR 0xB9}) s)"

text \<open>\<^verbatim>\<open>text.split("\n")[0]\<close>\<close>

definition first_line_of :: "string \<Rightarrow> string" where
  "first_line_of text = takeWhile (\<lambda>c. c \<noteq> CHR 0x0A) text"

text \<open>\<^verbatim>\<open>_extract_entity_name\<close>\<close>

definition extract_entity_name :: "env \<Rightarrow> string \<Rightarrow> string list \<Rightarrow> field_value \<times> rat" where
  "extract_entity_name re text labels =
     (case first_some
        (\<lambda>label.
           case re_search re (Re_entity_name label) text of
             None \<Rightarrow> None
           | Some g \<Rightarrow>
               (let name = re_sub re Re_legal_suffix (strip g)
                in if name \<noteq> [] \<and> 1 < length name \<and> \<not> isdigit name
                   then Some (VStr (strip name), float_lit (17 / 20)) else None))
        labels of
        Some r \<Rightarrow> r
      | None \<Rightarrow>
          (let first_line = strip (first_line_of text)
           in if 2 < length first_line \<and>
                 \<not> (case first_line of [] \<Rightarrow> False | c # _ \<Rightarrow> is_digit c) \<and>
                 length first_line < 60
              then (VStr first_line, float_lit (1 / 2))
              else (VNone, 0)))"

text \<open>\<^verbatim>\<open>_extract_address\<close>; the entity type is not used by the source.\<close>

definition extract_address :: "env \<Rightarrow> string \<Rightarrow> string \<Rightarrow> field_value \<times> rat" where
  "extract_address re text entity_type =
     (case re_search re Re_address text of
        Some g \<Rightarrow> (VStr (strip g), float_lit (3 / 5))
      | None \<Rightarrow> (VNone, 0))"

text \<open>\<^verbatim>\<open>_extract_tax_id\<close>\<close>

definition extract_tax_id :: "env \<Rightarrow> string \<Rightarrow> string list \<Rightarrow> field_value \<times> rat" where
  "extract_tax_id re text labels =
     (case first_some
        (\<lambda>label. map_option (\<lambda>g. (VStr (strip g), float_lit (9 / 10)))
                       (re_search re (Re_tax_id label) text))
        labels of
        Some r \<Rightarrow> r
      | None \<Rightarrow> (VNone, 0))"

text \<open>\<^verbatim>\<open>_extract_tax_rate\<close>: the comma of the match becomes a dot, a percent sign follows.\<close>

definition extract_tax_rate :: "env \<Rightarrow> string \<Rightarrow> field_value \<times> rat" where
  "extract_tax_rate re text =
     (case first_some
        (\<lambda>pattern. map_option
           (\<lambda>g. (VStr (map (\<lambda>c. if c = CHR '','' then CHR ''.'' else c) g @ ''%''),
                  float_lit (17 / 20)))
           (re_search re pattern text))
        [Re_tax_rate 0, Re_tax_rate 1] of
        Some r \<Rightarrow> r
      | None \<Rightarrow> (VNone, 0))"

text \<open>\<^verbatim>\<open>_extract_payment_terms\<close> and \<^verbatim>\<open>_extract_bank_info\<close>: ranked patterns.\<close>

definition search_ranked :: "env \<Rightarrow> (regex \<times> rat) list \<Rightarrow> string \<Rightarrow> field_value \<times> rat" where
  "search_ranked re patterns text =
     (case first_some
        (\<lambda>(pattern, conf). map_option (\<lambda>g. (VStr (strip g), conf)) (re_search re pattern text))
        patterns of
        Some r \<Rightarrow> r
      | None \<Rightarrow> (VNone, 0))"

definition payment_terms_patterns :: "(regex \<times> rat) list" where
  "payment_terms_patterns =
     [(Re_payment_terms 0, float_lit (9 / 10)), (Re_payment_terms 1, float_lit (17 / 20)),
      (Re_payment_terms 2, float_lit (4 / 5)), (Re_payment_terms 3, float_lit (3 / 4))]"

definition extract_payment_terms :: "env \<Rightarrow> string \<Rightarrow> field_value \<times> rat" where
  "extract_payment_terms re text = search_ranked re payment_terms_patterns text"

definition bank_info_patterns :: "(regex \<times> rat) list" where
  "bank_info_patterns =
     [(Re_bank_info 0, float_lit (19 / 20)), (Re_bank_info 1, float_lit (4 / 5)),
      (Re_bank_info 2, float_lit (9 / 10))]"

definition extract_bank_info :: "env \<Rightarrow> string \<Rightarrow> field_value \<times> rat" where
  "extract_bank_info re text = search_ranked re bank_info_patterns text"

text \<open>
  \<^verbatim>\<open>_detect_currency\<close>. \<^verbatim>\<open>CURRENCY_SYMBOLS\<close> in its insertion order; the entries of
  the euro sign, the rupee sign and the zloty and koruna abbreviations hold a character
  beyond code point 255, which no modelled text contains, so their count is 0 and the loop
  passes them by; they are left out. \<^verbatim>\<open>hay.count(needle)\<close> counts occurrences that do
  not overlap.
\<close>

definition CURRENCY_SYMBOLS :: "(string \<times> string) list" where
  "CURRENCY_SYMBOLS =
     [(''$'', ''USD''), ([CHR 0xA3], ''GBP''), (''kr'', ''NOK''), (''SEK'', ''SEK''),
      (''DKK'', ''DKK''), (''CHF'', ''CHF''), ([CHR 0xA5], ''JPY''), (''R$'', ''BRL''),
      (''A$'', ''AUD''), (''C$'', ''CAD'')]"

fun count_from :: "nat \<Rightarrow> string \<Rightarrow> string \<Rightarrow> nat" where
  "count_from skip needle [] = 0"
| "count_from skip needle (c # cs) =
     (if skip = 0 \<and> starts_with needle (c # cs)
      then Suc (count_from (length needle - 1) needle cs)
      else count_from (skip - 1) needle cs)"

definition count :: "string \<Rightarrow> string \<Rightarrow> nat" where
  "count hay needle = count_from 0 needle hay"

text \<open>\<^verbatim>\<open>currency_counts[code] = currency_counts.get(code, 0) + count\<close>\<close>

fun bump :: "(string \<times> nat) list \<Rightarrow> string \<Rightarrow> nat \<Rightarrow> (string \<times> nat) list" where
  "bump [] code n = [(code, n)]"
| "bump ((k, v) # kvs) code n =
     (if k = code then (k, v + n) # kvs else (k, v) # bump kvs code n)"

text \<open>\<^verbatim>\<open>max(currency_counts, key=currency_counts.get)\<close>: the first key of the largest count.\<close>

fun max_key :: "string \<times> nat \<Rightarrow> (string \<times> nat) list \<Rightarrow> string" where
  "max_key (k, v) [] = k"
| "max_key (k, v) ((k', v') # kvs) = (if v < v' then max_key (k', v') kvs else max_key (k, v) kvs)"

definition tally :: "('a \<Rightarrow> string \<times> nat) \<Rightarrow> 'a list \<Rightarrow> (string \<times> nat) list \<Rightarrow> (string \<times> nat) list" where
  "tally f xs counts =
     foldl (\<lambda>acc x. case f x of (code, n) \<Rightarrow> if 0 < n then bump acc code n else acc) counts xs"

definition detect_currency :: "env \<Rightarrow> string \<Rightarrow> field_value \<times> rat" where
  "detect_currency re text =
     (let currency_counts =
            tally (\<lambda>(symbol, code). (code, count (lower text) (lower symbol))) CURRENCY_SYMBOLS [];
          currency_counts =
            tally (\<lambda>code. (code, length (re_findall re (Re_currency_code code) text)))
              [''NOK'', ''USD'', ''EUR'', ''GBP'', ''SEK'', ''DKK'', ''CHF''] currency_counts
      in case currency_counts of
           [] \<Rightarrow> (VNone, 0)
         | kv # kvs \<Rightarrow> (VStr (max_key kv kvs), float_lit (17 / 20)))"

text \<open>\<^verbatim>\<open>_extract_contract_parties\<close>: with no match the empty list is returned.\<close>

definition extract_contract_parties :: "env \<Rightarrow> string \<Rightarrow> field_value \<times> rat" where
  "extract_contract_parties re text =
     (case re_search2 re Re_between text of
        Some (g1, g2) \<Rightarrow> (VList [strip g1, strip g2], float_lit (9 / 10))
      | None \<Rightarrow>
          (let matches = re_findall re Re_party text
           in if matches \<noteq> []
              then (VList (map strip (take 2 matches)), float_lit (17 / 20))
              else (VList [], 0)))"

text \<open>
  The coupling of section 8 for one result: the value is \<^verbatim>\<open>None\<close> exactly when the
  confidence is 0.0.
\<close>

definition coupled :: "field_value \<times> rat \<Rightarrow> bool" where
  "coupled r = (fst r = VNone \<longleftrightarrow> snd r = 0)"

text \<open>A matcher that finds nothing, as on a text in which no pattern occurs.\<close>

definition no_match :: env where
  "no_match =
     \<lparr>re_search = (\<lambda>p s. None), re_search2 = (\<lambda>p s. None), re_search0 = (\<lambda>p s. None),
      re_match2 = (\<lambda>p s. None), re_findall = (\<lambda>p s. []), re_sub = (\<lambda>p s. s),
      list_of_set = remdups\<rparr>"

text \<open>
  The shape of a primitive's result: nothing found, or a string found at one of the
  confidence levels of the primitive.
\<close>

definition found_at :: "rat set \<Rightarrow> field_value \<times> rat \<Rightarrow> bool" where
  "found_at levels r = ((\<exists>s. fst r = VStr s) \<and> snd r \<in> levels)"

definition outcome :: "rat set \<Rightarrow> field_value \<times> rat \<Rightarrow> bool" where
  "outcome levels r = (r = (VNone, 0) \<or> found_at levels r)"

text \<open>
  A matcher for the text \<^verbatim>\<open>Invoice Date: 2024-01-15\<close>: the labelled ISO date pattern of
  the label \<^verbatim>\<open>invoice date\<close> matches it with the date as its group, nothing else is
  asked of it.
\<close>

definition date_match :: env where
  "date_match =
     no_match\<lparr>re_search :=
       (\<lambda>p s. if p = Re_labeled_date ''invoice date'' Iso_date \<and> s = ''Invoice Date: 2024-01-15''
              then Some ''2024-01-15'' else None)\<rparr>"

section \<open>Extraction results\<close>

text \<open>
  The values stored under \<^verbatim>\<open>data\<close>: \<^verbatim>\<open>None\<close>, strings, integers, lists and
  dictionaries (lists of entries in insertion order).
\<close>

datatype jval =
    JNone
  | JStr string
  | JInt int
  | JList "jval list"
  | JDict "(string \<times> jval) list"

text \<open>
  The warnings of the engine. Their texts in the source: \<^verbatim>\<open>Invoice number not detected\<close>,
  \<^verbatim>\<open>Invoice date not detected\<close>, \<^verbatim>\<open>Total amount not detected\<close>,
  \<^verbatim>\<open>Vendor name not detected\<close>, the hint that no line items were found and the document
  should be checked for a table, \<^verbatim>\<open>No tables detected - extracted from text layout\<close>, and
  the note that generic extraction was used and a specific document type may yield better
  results.
\<close>

datatype warning =
    Invoice_number_not_detected
  | Invoice_date_not_detected
  | Total_amount_not_detected
  | Vendor_name_not_detected
  | No_line_items_found
  | No_tables_detected
  | Generic_extraction

text \<open>
  The result dictionary of an extractor. \<^verbatim>\<open>processing_time\<close> is wall-clock time and is
  left out.
\<close>

record extraction_result =
  success :: bool
  data :: "(string \<times> jval) list"
  confidence :: rat
  field_confidences :: "(string \<times> rat) list"
  error :: "string option"
  warnings :: "warning list"
  requires_review :: bool

text \<open>\<^verbatim>\<open>_error_result(error_msg, start_time)\<close>\<close>

definition error_result :: "string \<Rightarrow> extraction_result" where
  "error_result error_msg =
     \<lparr>success = False, data = [], confidence = 0, field_confidences = [],
      error = Some error_msg, warnings = [], requires_review = False\<rparr>"

text \<open>The decimal numeral of \<^verbatim>\<open>f"Col_{i}"\<close>.\<close>

fun show_nat :: "nat \<Rightarrow> string" where
  "show_nat n =
     (if n < 10 then [char_of (48 + n)]
      else show_nat (n div 10) @ [char_of (48 + n mod 10)])"

declare show_nat.simps [simp del]

definition col_name :: "nat \<Rightarrow> string" where
  "col_name i = ''Col_'' @ show_nat i"

text \<open>\<^verbatim>\<open>d[key] = value\<close> on a dictionary: a key that is there keeps its place.\<close>

fun dict_set :: "(string \<times> 'v) list \<Rightarrow> string \<Rightarrow> 'v \<Rightarrow> (string \<times> 'v) list" where
  "dict_set [] key v = [(key, v)]"
| "dict_set ((k, w) # kvs) key v =
     (if k = key then (k, v) # kvs else (k, w) # dict_set kvs key v)"

text \<open>
  The flattening of a raw table that three extractors share:
  \<^verbatim>\<open>[str(h).strip() if h else f"Col_{i}" for i, h in enumerate(table[0])]\<close> and one
  dictionary per body row.
\<close>

definition table_headers :: "row \<Rightarrow> string list" where
  "table_headers hdr =
     map (\<lambda>(i, h). case h of
                      None \<Rightarrow> col_name i
                    | Some s \<Rightarrow> if s = [] then col_name i else strip s)
         (enumerate 0 hdr)"

definition row_dict :: "string list \<Rightarrow> row \<Rightarrow> (string \<times> string) list" where
  "row_dict headers r =
     foldl (\<lambda>d (i, c). dict_set d (if i < length headers then headers ! i else col_name i)
                                    (cell_text c))
           [] (enumerate 0 r)"

definition table_rows :: "table \<Rightarrow> jval list" where
  "table_rows raw =
     (case raw of
        [] \<Rightarrow> []
      | hdr # body \<Rightarrow>
          map (\<lambda>r. JDict (map (\<lambda>(k, v). (k, JStr v)) (row_dict (table_headers hdr) r))) body)"

definition headers_of :: "table \<Rightarrow> string list" where
  "headers_of raw = (case raw of [] \<Rightarrow> [] | hdr # body \<Rightarrow> table_headers hdr)"

text \<open>\<^verbatim>\<open>if table and len(table) > 1\<close>\<close>

definition usable :: "table \<Rightarrow> bool" where
  "usable t = (t \<noteq> [] \<and> 1 < length t)"

text \<open>The value of a field as it is stored under \<^verbatim>\<open>data\<close>.\<close>

definition jval_of :: "field_value \<Rightarrow> jval" where
  "jval_of v = (case v of VNone \<Rightarrow> JNone | VStr s \<Rightarrow> JStr s | VList xs \<Rightarrow> JList (map JStr xs))"

definition role_name :: "role \<Rightarrow> string" where
  "role_name r =
     (case r of
        Description \<Rightarrow> ''description'' | Product_code \<Rightarrow> ''product_code''
      | Quantity \<Rightarrow> ''quantity'' | Unit \<Rightarrow> ''unit'' | Unit_price \<Rightarrow> ''unit_price''
      | Tax \<Rightarrow> ''tax'' | Amount \<Rightarrow> ''amount'' | Discount \<Rightarrow> ''discount'')"

definition jval_of_item :: "line_item \<Rightarrow> jval" where
  "jval_of_item item =
     JDict ((''line_no'', JInt (int (line_no item))) #
            map (\<lambda>(r, v). (role_name r, case v of None \<Rightarrow> JNone | Some s \<Rightarrow> JStr s))
                (item_fields item))"

section \<open>The invoice extractor\<close>

text \<open>
  The loop over \<^verbatim>\<open>enumerate(pdf.pages, 1)\<close> of \<^verbatim>\<open>extract_invoice_data_ml\<close>: it grows
  \<^verbatim>\<open>all_text\<close> and \<^verbatim>\<open>all_tables\<close> and stops at the first exception of the reader.
\<close>

record table_info =
  page_no :: nat
  table_index :: nat
  raw_table :: table

definition kept_tables :: "nat \<Rightarrow> table list \<Rightarrow> table_info list" where
  "kept_tables page_num tables =
     map (\<lambda>(t_idx, t). \<lparr>page_no = page_num, table_index = t_idx, raw_table = t\<rparr>)
         (filter (\<lambda>(t_idx, t). usable t) (enumerate 0 tables))"

fun read_invoice_pages ::
  "nat \<Rightarrow> page list \<Rightarrow> string \<times> table_info list \<Rightarrow> string + (string \<times> table_info list)" where
  "read_invoice_pages page_num [] acc = Inr acc"
| "read_invoice_pages page_num (p # ps) (all_text, all_tables) =
     (case extract_text p of
        Inl exc \<Rightarrow> Inl exc
      | Inr t \<Rightarrow>
          (case extract_tables p of
             Inl exc \<Rightarrow> Inl exc
           | Inr tables \<Rightarrow>
               read_invoice_pages (Suc page_num) ps
                 (all_text @ or_empty t @ [CHR 0x0A],
                  all_tables @ kept_tables page_num tables)))"

text \<open>The header fields of an invoice, in the order the source stores them.\<close>

definition invoice_fields :: "env \<Rightarrow> string \<Rightarrow> (string \<times> field_value \<times> rat) list" where
  "invoice_fields re all_text =
     [(''invoice_number'', extract_invoice_number re all_text),
      (''invoice_date'', extract_labeled_date re all_text
         [''invoice date'', ''fakturadato'', ''date'', ''dato'', ''issued'', ''invoice'']),
      (''due_date'', extract_labeled_date re all_text
         [''due date'', ''forfallsdato'', ''payment due'', ''due'', ''forfall'',
          ''betalingsfrist'']),
      (''vendor_name'', extract_entity_name re all_text
         [''from'', ''vendor'', ''supplier'', ''seller'', ''fra'',
          ''leverand'' @ CHR 0xF8 # ''r'', ''selger'']),
      (''vendor_address'', extract_address re all_text ''vendor''),
      (''vendor_tax_id'', extract_tax_id re all_text
         [''org.nr'', ''org nr'', ''vat'', ''tax id'', ''ein'', ''gst'', ''mva'']),
      (''buyer_name'', extract_entity_name re all_text
         [''to'', ''bill to'', ''buyer'', ''customer'', ''client'', ''til'',
          ''kj'' @ CHR 0xF8 # ''per'', ''kunde'']),
      (''buyer_address'', extract_address re all_text ''buyer''),
      (''buyer_tax_id'', extract_tax_id re all_text
         [''customer vat'', ''buyer tax'', ''kundens org'']),
      (''currency'', detect_currency re all_text),
      (''subtotal'', extract_labeled_amount re all_text
         [''subtotal'', ''sub total'', ''netto'', ''net amount'', ''sum before tax'',
          ''grunnlag'']),
      (''tax_amount'', extract_labeled_amount re all_text
         [''tax'', ''vat'', ''mva'', ''gst'', ''sales tax'', ''merverdiavgift'', ''moms'']),
      (''tax_rate'', extract_tax_rate re all_text),
      (''total_amount'', extract_labeled_amount re all_text
         [''total'', ''grand total'', ''amount due'', ''totalt'', ''sum'', ''balance due'',
          ''total amount'', ''invoice total'', CHR 0xE5 # '' betale'']),
      (''amount_due'', extract_labeled_amount re all_text
         [''amount due'', ''balance due'', CHR 0xE5 # '' betale'', ''til betaling'',
          ''outstanding'']),
      (''payment_terms'', extract_payment_terms re all_text),
      (''purchase_order'', extract_labeled_value re all_text
         [''po number'', ''purchase order'', ''po#'', ''p.o.'', ''bestillingsnr'',
          ''innkj'' @ CHR 0xF8 # ''psordre'']),
      (''reference'', extract_labeled_value re all_text
         [''reference'', ''ref'', ''referanse'', ''your ref'', ''v'' @ CHR 0xE5 # ''r ref'',
          ''our ref'']),
      (''bank_account'', extract_bank_info re all_text)]"

definition values_of :: "(string \<times> field_value \<times> rat) list \<Rightarrow> (string \<times> jval) list" where
  "values_of fs = map (\<lambda>(name, v, c). (name, jval_of v)) fs"

definition confidences_of :: "(string \<times> field_value \<times> rat) list \<Rightarrow> (string \<times> rat) list" where
  "confidences_of fs = map (\<lambda>(name, v, c). (name, c)) fs"

text \<open>\<^verbatim>\<open>not fields.get(name)\<close>: the value is \<^verbatim>\<open>None\<close> or empty.\<close>

definition missing :: "(string \<times> field_value \<times> rat) list \<Rightarrow> string \<Rightarrow> bool" where
  "missing fs name =
     (case map_of fs name of
        None \<Rightarrow> True
      | Some (v, c) \<Rightarrow> v = VNone \<or> v = VStr [] \<or> v = VList [])"

text \<open>\<^verbatim>\<open>_validate_invoice_fields\<close>\<close>

definition validate_invoice_fields ::
  "(string \<times> field_value \<times> rat) list \<Rightarrow> line_item list \<Rightarrow> warning list" where
  "validate_invoice_fields fs line_items =
     (if missing fs ''invoice_number'' then [Invoice_number_not_detected] else []) @
     (if missing fs ''invoice_date'' then [Invoice_date_not_detected] else []) @
     (if missing fs ''total_amount'' then [Total_amount_not_detected] else []) @
     (if missing fs ''vendor_name'' then [Vendor_name_not_detected] else []) @
     (if line_items = [] then [No_line_items_found] else [])"

definition invoice_key_fields :: "string list" where
  "invoice_key_fields = [''invoice_number'', ''invoice_date'', ''vendor_name'', ''total_amount'']"

text \<open>The confidence of an invoice before it is rounded to two decimals.\<close>

definition invoice_confidence :: "env \<Rightarrow> string \<Rightarrow> rat" where
  "invoice_confidence re all_text =
     calculate_weighted_confidence (confidences_of (invoice_fields re all_text))
       invoice_key_fields"

definition parsed_table :: "table_info \<Rightarrow> jval" where
  "parsed_table t =
     JDict [(''page'', JInt (int (page_no t))),
            (''headers'', JList (map JStr (headers_of (raw_table t)))),
            (''rows'', JList (table_rows (raw_table t))),
            (''row_count'', JInt (int (length (table_rows (raw_table t)))))]"

text \<open>The part of \<^verbatim>\<open>extract_invoice_data_ml\<close> after the text was found not to be blank.\<close>

definition invoice_result ::
  "env \<Rightarrow> string \<Rightarrow> table_info list \<Rightarrow> nat \<Rightarrow> extraction_result" where
  "invoice_result re all_text all_tables pages =
     (let fs = invoice_fields re all_text;
          line_items = extract_line_items (map raw_table all_tables);
          overall_confidence = invoice_confidence re all_text
      in \<lparr>success = True,
          data = values_of fs @
                 [(''line_items'', JList (map jval_of_item line_items)),
                  (''tables'', JList (map parsed_table (filter (\<lambda>t. usable (raw_table t)) all_tables))),
                  (''pages_processed'', JInt (int pages))],
          confidence = py_round2 overall_confidence,
          field_confidences = map (\<lambda>(k, v). (k, py_round2 v)) (confidences_of fs),
          error = None,
          warnings = validate_invoice_fields fs line_items,
          requires_review = (overall_confidence < float_lit (3 / 5))\<rparr>)"

definition extract_invoice_data_ml :: "env \<Rightarrow> pdf \<Rightarrow> extraction_result" where
  "extract_invoice_data_ml re pdf =
     (case pdf of
        Inl exc \<Rightarrow> error_result exc
      | Inr pages \<Rightarrow>
          (case read_invoice_pages 1 pages ([], []) of
             Inl exc \<Rightarrow> error_result exc
           | Inr (all_text, all_tables) \<Rightarrow>
               if strip all_text = []
               then error_result ''No text could be extracted from this PDF''
               else invoice_result re all_text all_tables (length pages)))"

section \<open>The contract extractor\<close>

fun read_contract_pages :: "page list \<Rightarrow> string \<Rightarrow> string + string" where
  "read_contract_pages [] all_text = Inr all_text"
| "read_contract_pages (p # ps) all_text =
     (case extract_text p of
        Inl exc \<Rightarrow> Inl exc
      | Inr t \<Rightarrow> read_contract_pages ps (all_text @ or_empty t @ [CHR 0x0A]))"

text \<open>\<^verbatim>\<open>_detect_contract_type\<close>: the first type one of whose keywords occurs.\<close>

definition type_keywords :: "(string \<times> string list) list" where
  "type_keywords =
     [(''Service Agreement'', [''service agreement'', ''service contract'', ''tjenesteavtale'']),
      (''Employment Contract'', [''employment'', ''ansettelse'', ''arbeidsavtale'',
                                 ''employment agreement'']),
      (''NDA'', [''non-disclosure'', ''confidentiality agreement'', ''nda'',
                 ''konfidensialitetsavtale'']),
      (''Sales Agreement'', [''sales agreement'', ''purchase agreement'',
                             ''kj'' @ CHR 0xF8 # ''psavtale'']),
      (''Lease Agreement'', [''lease'', ''rental'', ''leieavtale'', ''husleie'']),
      (''Partnership Agreement'', [''partnership'', ''joint venture'', ''samarbeidsavtale'']),
      (''Supply Agreement'', [''supply agreement'', ''leveranseavtale'', ''transportation'']),
      (''Consulting Agreement'', [''consulting'', ''advisory'', ''konsulentavtale'',
                                  ''r'' @ CHR 0xE5 # ''dgivning''])]"

definition detect_contract_type :: "string \<Rightarrow> field_value \<times> rat" where
  "detect_contract_type text =
     (case first_some
        (\<lambda>(ctype, keywords).
           if any_word_in keywords (lower text) then Some (VStr ctype, float_lit (17 / 20))
           else None)
        type_keywords of
        Some r \<Rightarrow> r
      | None \<Rightarrow> (VStr ''General Contract'', float_lit (1 / 2)))"

text \<open>\<^verbatim>\<open>_extract_clause\<close>: a clause longer than 200 characters is cut and marked.\<close>

definition extract_clause :: "env \<Rightarrow> string \<Rightarrow> string list \<Rightarrow> field_value \<times> rat" where
  "extract_clause re text labels =
     (case first_some
        (\<lambda>label. map_option
           (\<lambda>g. (let clause = strip g
                  in (VStr (if 200 < length clause then take 200 clause @ ''...'' else clause),
                      float_lit (3 / 4))))
           (re_search re (Re_clause label) text))
        labels of
        Some r \<Rightarrow> r
      | None \<Rightarrow> (VNone, 0))"

definition contract_fields :: "env \<Rightarrow> string \<Rightarrow> (string \<times> field_value \<times> rat) list" where
  "contract_fields re all_text =
     [(''parties'', extract_contract_parties re all_text),
      (''contract_type'', detect_contract_type all_text),
      (''effective_date'', extract_labeled_date re all_text
         [''effective date'', ''commencement'', ''start date'', ''ikrafttredelse'', ''fra dato'']),
      (''expiration_date'', extract_labeled_date re all_text
         [''expiration'', ''termination'', ''end date'', ''expiry'',
          ''utl'' @ CHR 0xF8 # ''psdato'', ''til dato'']),
      (''signing_date'', extract_labeled_date re all_text
         [''signed'', ''executed'', ''dated'', ''signature date'', ''signert'']),
      (''governing_law'', extract_labeled_value re all_text
         [''governing law'', ''jurisdiction'', ''applicable law'', ''lovvalg'']),
      (''payment_terms'', extract_payment_terms re all_text),
      (''termination_clause'', extract_clause re all_text [''termination'', ''oppsigelse'']),
      (''liability'', extract_clause re all_text [''liability'', ''ansvar'', ''indemnification'']),
      (''confidentiality'', extract_clause re all_text
         [''confidential'', ''konfidensialitet'', ''non-disclosure'', ''nda'']),
      (''contract_value'', extract_labeled_amount re all_text
         [''total value'', ''contract value'', ''amount'', ''consideration'', ''price'', ''pris'']),
      (''currency'', detect_currency re all_text)]"

definition contract_key_fields :: "string list" where
  "contract_key_fields = [''parties'', ''effective_date'', ''contract_type'']"

definition contract_confidence :: "env \<Rightarrow> string \<Rightarrow> rat" where
  "contract_confidence re all_text =
     calculate_weighted_confidence (confidences_of (contract_fields re all_text))
       contract_key_fields"

definition contract_result :: "env \<Rightarrow> string \<Rightarrow> nat \<Rightarrow> extraction_result" where
  "contract_result re all_text pages =
     (let fs = contract_fields re all_text;
          overall_confidence = contract_confidence re all_text
      in \<lparr>success = True,
          data = values_of fs @ [(''pages_processed'', JInt (int pages))],
          confidence = py_round2 overall_confidence,
          field_confidences = map (\<lambda>(k, v). (k, py_round2 v)) (confidences_of fs),
          error = None,
          warnings = [],
          requires_review = (overall_confidence < float_lit (3 / 5))\<rparr>)"

definition extract_contract_data_ml :: "env \<Rightarrow> pdf \<Rightarrow> extraction_result" where
  "extract_contract_data_ml re pdf =
     (case pdf of
        Inl exc \<Rightarrow> error_result exc
      | Inr pages \<Rightarrow>
          (case read_contract_pages pages [] of
             Inl exc \<Rightarrow> error_result exc
           | Inr all_text \<Rightarrow>
               if strip all_text = []
               then error_result ''No text could be extracted''
               else contract_result re all_text (length pages)))"

section \<open>The financial-statement extractor\<close>

text \<open>
  \<^verbatim>\<open>extract_financial_statement_ml\<close> reads the pages as the invoice extractor does (text,
  then tables, page by page) and flattens each usable table.
\<close>

definition statement_table :: "table_info \<Rightarrow> jval" where
  "statement_table t =
     JDict [(''page'', JInt (int (page_no t))),
            (''table_index'', JInt (int (table_index t))),
            (''headers'', JList (map JStr (headers_of (raw_table t)))),
            (''rows'', JList (table_rows (raw_table t))),
            (''row_count'', JInt (int (length (table_rows (raw_table t))))),
            (''column_count'', JInt (int (length (headers_of (raw_table t)))))]"

text \<open>\<^verbatim>\<open>text.split("\n")\<close>\<close>

fun split_lines :: "string \<Rightarrow> string list" where
  "split_lines [] = [[]]"
| "split_lines (c # cs) =
     (if c = CHR 0x0A then [] # split_lines cs
      else (case split_lines cs of
              [] \<Rightarrow> [[c]]
            | l # ls \<Rightarrow> (c # l) # ls))"

text \<open>
  \<^verbatim>\<open>_extract_statement_from_text\<close>: one item per line of the shape label, gap, number; the
  empty dictionary when no line has it.
\<close>

definition statement_items :: "env \<Rightarrow> string \<Rightarrow> jval list" where
  "statement_items re text =
     List.map_filter
       (\<lambda>line. map_option
          (\<lambda>(g1, g2). JDict [(''label'', JStr (strip g1)),
                               (''value'', case normalize_amount g2 of
                                             None \<Rightarrow> JNone
                                           | Some s \<Rightarrow> JStr s)])
          (re_match2 re Re_statement_line line))
       (split_lines text)"

definition extract_statement_from_text :: "env \<Rightarrow> string \<Rightarrow> (string \<times> jval) list" where
  "extract_statement_from_text re text =
     (let items = statement_items re text
      in if items \<noteq> []
         then [(''items'', JList items), (''item_count'', JInt (int (length items)))]
         else [])"

text \<open>\<^verbatim>\<open>_detect_statement_type\<close>\<close>

definition detect_statement_type :: "string \<Rightarrow> string" where
  "detect_statement_type text =
     (if any_word_in [''balance sheet'', ''balanse'', ''assets and liabilities''] (lower text)
      then ''Balance Sheet''
      else if any_word_in [''income statement'', ''profit and loss'', ''p&l'', ''resultat'']
                (lower text)
      then ''Income Statement''
      else if any_word_in [''cash flow'', ''kontantstr'' @ CHR 0xF8 # ''m''] (lower text)
      then ''Cash Flow Statement''
      else ''Financial Statement'')"

text \<open>\<^verbatim>\<open>_extract_period\<close>: the whole match of the first pattern that matches.\<close>

definition extract_period :: "env \<Rightarrow> string \<Rightarrow> jval" where
  "extract_period re text =
     (case first_some (\<lambda>pattern. re_search0 re pattern text) [Re_period 0, Re_period 1] of
        Some g \<Rightarrow> JStr (strip g)
      | None \<Rightarrow> JNone)"

text \<open>\<^verbatim>\<open>label.replace(' ', '_')\<close>\<close>

definition underscored :: "string \<Rightarrow> string" where
  "underscored s = map (\<lambda>c. if c = CHR '' '' then CHR ''_'' else c) s"

text \<open>The loop over the summary labels: the first label with an amount gives one entry.\<close>

definition summary_total :: "env \<Rightarrow> string \<Rightarrow> (string \<times> jval) list" where
  "summary_total re text =
     (case first_some
        (\<lambda>label.
           case extract_labeled_amount re text [label] of
             (VStr amount, conf) \<Rightarrow>
               if amount \<noteq> [] then Some (''summary_'' @ underscored label, JStr amount)
               else None
           | _ \<Rightarrow> None)
        [''total'', ''net income'', ''balance'', ''sum'', ''totalt'', ''resultat''] of
        Some entry \<Rightarrow> [entry]
      | None \<Rightarrow> [])"

text \<open>\<^verbatim>\<open>sum(t["row_count"] for t in tables)\<close>\<close>

definition total_rows :: "table_info list \<Rightarrow> int" where
  "total_rows ts = sum_list (map (\<lambda>t. int (length (table_rows (raw_table t)))) ts)"

definition statement_result ::
  "env \<Rightarrow> string \<Rightarrow> table_info list \<Rightarrow> nat \<Rightarrow> extraction_result" where
  "statement_result re all_text all_tables pages =
     \<lparr>success = True,
      data = [(''statement_type'', JStr (detect_statement_type all_text)),
              (''period'', extract_period re all_text),
              (''currency'', jval_of (fst (detect_currency re all_text))),
              (''tables'', JList (map statement_table all_tables)),
              (''total_tables'', JInt (int (length all_tables))),
              (''total_rows'', JInt (total_rows all_tables)),
              (''pages_processed'', JInt (int pages))] @
             summary_total re all_text,
      confidence = float_lit (41 / 50),
      field_confidences = [],
      error = None,
      warnings = [],
      requires_review = False\<rparr>"

text \<open>The result of the text-layout fallback.\<close>

definition fallback_result :: "(string \<times> jval) list \<Rightarrow> extraction_result" where
  "fallback_result fs =
     \<lparr>success = True,
      data = fs,
      confidence = float_lit (13 / 20),
      field_confidences = [],
      error = None,
      warnings = [No_tables_detected],
      requires_review = True\<rparr>"

definition extract_financial_statement_ml :: "env \<Rightarrow> pdf \<Rightarrow> extraction_result" where
  "extract_financial_statement_ml re pdf =
     (case pdf of
        Inl exc \<Rightarrow> error_result exc
      | Inr pages \<Rightarrow>
          (case read_invoice_pages 1 pages ([], []) of
             Inl exc \<Rightarrow> error_result exc
           | Inr (all_text, all_tables) \<Rightarrow>
               if all_tables = []
               then (let fs = extract_statement_from_text re all_text
                     in if fs \<noteq> [] then fallback_result fs
                        else error_result ''No tables found in financial statement'')
               else statement_result re all_text all_tables (length pages)))"

section \<open>The generic extractor\<close>

text \<open>
  The loop of \<^verbatim>\<open>extract_generic_data_ml\<close>: besides the text and the tables it keeps the
  pages whose text is not blank.
\<close>

fun read_generic_pages ::
  "nat \<Rightarrow> page list \<Rightarrow> string \<times> jval list \<times> table_info list \<Rightarrow>
   string + (string \<times> jval list \<times> table_info list)" where
  "read_generic_pages page_num [] acc = Inr acc"
| "read_generic_pages page_num (p # ps) (all_text, text_blocks, tables) =
     (case extract_text p of
        Inl exc \<Rightarrow> Inl exc
      | Inr t \<Rightarrow>
          (case extract_tables p of
             Inl exc \<Rightarrow> Inl exc
           | Inr page_tables \<Rightarrow>
               read_generic_pages (Suc page_num) ps
                 (all_text @ or_empty t @ [CHR 0x0A],
                  text_blocks @
                    (if strip (or_empty t) \<noteq> []
                     then [JDict [(''page'', JInt (int page_num)), (''text'', JStr (or_empty t))]]
                     else []),
                  tables @ kept_tables page_num page_tables)))"

text \<open>An entry that is stored only when the list of finds is not empty.\<close>

definition found_entry :: "string \<Rightarrow> string list \<Rightarrow> string list \<Rightarrow> (string \<times> jval) list" where
  "found_entry name finds listed =
     (if finds \<noteq> [] then [(name, JList (map JStr listed))] else [])"

definition generic_data ::
  "env \<Rightarrow> string \<Rightarrow> jval list \<Rightarrow> table_info list \<Rightarrow> nat \<Rightarrow> (string \<times> jval) list" where
  "generic_data re all_text text_blocks tables pages =
     (let all_dates = concat (map (\<lambda>pattern. re_findall re (Re_date pattern) all_text)
                                  DATE_PATTERNS);
          amounts = re_findall re Re_generic_amount all_text;
          emails = re_findall re Re_email all_text;
          phones = re_findall re Re_phone all_text;
          urls = re_findall re Re_url all_text
      in [(''pages_processed'', JInt (int pages)),
          (''total_characters'', JInt (int (length all_text))),
          (''text_blocks'', JList text_blocks),
          (''tables'', JList (map parsed_table tables)),
          (''total_tables'', JInt (int (length tables))),
          (''total_rows'', JInt (total_rows tables))] @
         found_entry ''dates_found'' all_dates (list_of_set re (take 20 all_dates)) @
         found_entry ''amounts_found'' amounts (list_of_set re (map strip (take 20 amounts))) @
         [(''currency'', jval_of (fst (detect_currency re all_text)))] @
         found_entry ''emails_found'' emails (list_of_set re emails) @
         found_entry ''phones_found'' phones (list_of_set re (map strip (take 10 phones))) @
         found_entry ''urls_found'' urls (list_of_set re urls))"

text \<open>The confidence ladder of the generic extractor.\<close>

definition generic_confidence :: "string \<Rightarrow> table_info list \<Rightarrow> rat" where
  "generic_confidence all_text tables =
     (if length all_text < 100 then float_lit (1 / 2)
      else if tables \<noteq> [] then float_lit (4 / 5)
      else float_lit (3 / 4))"

definition generic_result ::
  "env \<Rightarrow> string \<Rightarrow> jval list \<Rightarrow> table_info list \<Rightarrow> nat \<Rightarrow> extraction_result" where
  "generic_result re all_text text_blocks tables pages =
     \<lparr>success = True,
      data = generic_data re all_text text_blocks tables pages,
      confidence = generic_confidence all_text tables,
      field_confidences = [],
      error = None,
      warnings = [Generic_extraction],
      requires_review = False\<rparr>"

definition extract_generic_data_ml :: "env \<Rightarrow> pdf \<Rightarrow> extraction_result" where
  "extract_generic_data_ml re pdf =
     (case pdf of
        Inl exc \<Rightarrow> error_result exc
      | Inr pages \<Rightarrow>
          (case read_generic_pages 1 pages ([], [], []) of
             Inl exc \<Rightarrow> error_result exc
           | Inr (all_text, text_blocks, tables) \<Rightarrow>
               generic_result re all_text text_blocks tables (length pages)))"

section \<open>What the claims about the extractors speak of\<close>

text \<open>
  The first exception of the reader in the order the extractors call it: the text of a
  page, then (for the extractors that read tables) its tables.
\<close>

fun first_exception :: "bool \<Rightarrow> page list \<Rightarrow> string option" where
  "first_exception with_tables [] = None"
| "first_exception with_tables (p # ps) =
     (case extract_text p of
        Inl exc \<Rightarrow> Some exc
      | Inr t \<Rightarrow>
          (if with_tables
           then (case extract_tables p of
                   Inl exc \<Rightarrow> Some exc
                 | Inr ts \<Rightarrow> first_exception with_tables ps)
           else first_exception with_tables ps))"

definition reader_exception :: "bool \<Rightarrow> pdf \<Rightarrow> string option" where
  "reader_exception with_tables pdf =
     (case pdf of Inl exc \<Rightarrow> Some exc | Inr pages \<Rightarrow> first_exception with_tables pages)"

text \<open>The text of a document whose pages were all read: every page text and a line feed.\<close>

definition document_text :: "page list \<Rightarrow> string" where
  "document_text pages =
     concat (map (\<lambda>p. (case extract_text p of Inl exc \<Rightarrow> [] | Inr t \<Rightarrow> or_empty t) @ [CHR 0x0A])
                 pages)"

text \<open>The usable tables of a document whose pages were all read, page by page.\<close>

definition document_tables :: "nat \<Rightarrow> page list \<Rightarrow> table_info list" where
  "document_tables page_num pages =
     concat (map (\<lambda>(n, p). case extract_tables p of Inl exc \<Rightarrow> [] | Inr ts \<Rightarrow> kept_tables n ts)
                 (enumerate page_num pages))"

text \<open>
  The review flag invariant of section 3 for one result: \<^verbatim>\<open>requires_review\<close> is
  \<^verbatim>\<open>success and confidence < 0.60\<close>.
\<close>

definition review_invariant :: "extraction_result \<Rightarrow> bool" where
  "review_invariant r = (requires_review r \<longleftrightarrow> success r \<and> confidence r < float_lit (3 / 5))"

text \<open>
  A matcher for the one-line text \<^verbatim>\<open>Revenue  100\<close>: the statement line pattern matches
  the line with the label and the number as its groups, nothing else matches.
\<close>

definition revenue_match :: env where
  "revenue_match =
     no_match\<lparr>re_match2 :=
       (\<lambda>p s. if p = Re_statement_line \<and> s = ''Revenue  100''
              then Some (''Revenue'', ''100'') else None)\<rparr>"

section \<open>Facts about the normaliser\<close>

lemma digit_not_space: "is_digit c \<Longrightarrow> \<not> is_space c"
  by (auto simp: is_digit_def is_space_def)

lemma digit_not_comma: "is_digit c \<Longrightarrow> c \<noteq> CHR '',''"
  by (auto simp: is_digit_def)

lemma digit_not_dot: "is_digit c \<Longrightarrow> c \<noteq> CHR ''.''"
  by (auto simp: is_digit_def)

lemma strip_no_space: "\<forall>c\<in>set s. \<not> is_space c \<Longrightarrow> strip s = s"
proof -
  assume h: "\<forall>c\<in>set s. \<not> is_space c"
  have a: "dropWhile is_space s = s" using h by (cases s) auto
  have "\<forall>c\<in>set (rev s). \<not> is_space c" using h by simp
  then have b: "dropWhile is_space (rev s) = rev s" by (cases "rev s") auto
  show ?thesis by (simp add: strip_def a b)
qed

lemma remove_inner_ws_no_space:
  "\<forall>c\<in>set s. \<not> is_space c \<Longrightarrow> remove_inner_ws p s = s"
  by (induction s arbitrary: p) auto

lemma sep_groups_sep: "sep_groups sep dec s \<Longrightarrow> sep \<in> set s"
  by (induction sep dec s rule: sep_groups.induct) auto

lemma dec_tail_dec: "dec_tail dec s \<Longrightarrow> dec \<in> set s"
  by (auto simp: dec_tail_def split: list.splits)

lemma sep_groups_dec: "sep_groups sep dec s \<Longrightarrow> dec \<in> set s"
  by (induction sep dec s rule: sep_groups.induct) (auto dest: dec_tail_dec)

lemma grouped_amount_sep: "grouped_amount sep dec s \<Longrightarrow> sep \<in> set s"
  unfolding grouped_amount_def Let_def
  using sep_groups_sep set_dropWhileD by fastforce

lemma grouped_amount_dec: "grouped_amount sep dec s \<Longrightarrow> dec \<in> set s"
  unfolding grouped_amount_def Let_def
  using sep_groups_dec set_dropWhileD by fastforce

lemma no_dot_in_digits: "list_all is_digit s \<Longrightarrow> filter (\<lambda>c. c = CHR ''.'') s = []"
  by (induction s) (auto dest: digit_not_dot)

lemma float_parses_canonical:
  assumes "list_all (\<lambda>c. is_digit c \<or> c = CHR ''.'') s" "float_parses s"
  shows "canonical_amount s"
proof -
  let ?w = "takeWhile is_digit s" and ?r = "dropWhile is_digit s"
  have s: "s = ?w @ ?r" by simp
  have w: "list_all is_digit ?w" by (induction s) auto
  have fw: "filter (\<lambda>c. c = CHR ''.'') ?w = []"
    using w by (rule no_dot_in_digits)
  show ?thesis
  proof (cases ?r)
    case Nil
    have "s = ?w @ []" by (subst Nil [symmetric]) (rule s)
    then have sw: "s = ?w" by (simp only: append_Nil2)
    have "?w \<noteq> []" using assms(2) Nil by (simp add: float_parses_def)
    then obtain d where "d \<in> set ?w" by (cases ?w) auto
    then have "d \<in> set s" "is_digit d"
      using w by (auto simp: list_all_iff dest: set_takeWhileD)
    then have ex: "list_ex is_digit s" by (auto simp: list_ex_iff)
    have "filter (\<lambda>c. c = CHR ''.'') s = []" using fw sw by simp
    then show ?thesis using assms(1) ex by (simp add: canonical_amount_def)
  next
    case (Cons c decimals)
    then have c: "c = CHR ''.''" and fr: "list_all is_digit decimals"
      and ne: "?w \<noteq> [] \<or> decimals \<noteq> []"
      using assms(2) by (auto simp: float_parses_def)
    have ff: "filter (\<lambda>c. c = CHR ''.'') decimals = []"
      using fr by (rule no_dot_in_digits)
    have s': "s = ?w @ c # decimals" using s Cons by simp
    have "length (filter (\<lambda>c. c = CHR ''.'') (?w @ c # decimals)) \<le> 1"
      by (simp add: fw ff c)
    then have cnt: "length (filter (\<lambda>c. c = CHR ''.'') s) \<le> 1"
      using s' by simp
    have "list_ex is_digit (?w @ c # decimals)"
      using ne w fr by (cases ?w; cases decimals) (auto simp: list_all_iff)
    then have ex: "list_ex is_digit s" using s' by simp
    show ?thesis using assms(1) cnt ex by (simp add: canonical_amount_def)
  qed
qed

lemma normalize_amount_cases:
  assumes "raw \<noteq> []"
  shows "\<exists>s. normalize_amount raw = Some s \<and> (canonical_amount s \<or> s = strip raw)"
proof -
  obtain cl where cl: "normalize_amount raw =
      (let cleaned = filter (\<lambda>c. is_digit c \<or> c = CHR ''.'') cl
       in if float_parses cleaned then Some cleaned else Some (strip raw))"
    using assms unfolding normalize_amount_def Let_def by auto
  let ?f = "filter (\<lambda>c. is_digit c \<or> c = CHR ''.'') cl"
  have all: "list_all (\<lambda>c. is_digit c \<or> c = CHR ''.'') ?f"
    by (simp add: list_all_iff)
  show ?thesis
  proof (cases "float_parses ?f")
    case True
    then have "canonical_amount ?f" using all float_parses_canonical by blast
    then show ?thesis using cl True by (simp add: Let_def)
  next
    case False
    then show ?thesis using cl by (simp add: Let_def)
  qed
qed

lemmas normalize_eval =
  normalize_amount_def strip_def is_space_def is_digit_def grouped_amount_def
  dec_tail_def float_parses_def ws_then_digit_def

section \<open>Claims about the amount normaliser\<close>

text \<open>
  C2, as the specification states it: for every input string the normaliser returns a
  canonical amount or the trimmed input. It fails at the empty string, for which the
  guard \<^verbatim>\<open>if not raw: return None\<close> returns no string at all.
\<close>

theorem C2_empty_input_counterexample: "\<not> normalizer_contract ''''"
  by (simp add: normalizer_contract_def normalize_amount_def)

text \<open>
  C2, amended: the normaliser is total (it never raises); for every non-empty input it
  returns a canonical amount or the trimmed input, for the empty input it returns None;
  and it maps the five test inputs of section 4.1 as listed.
\<close>

theorem C2_normalizer_contract:
  "(raw \<noteq> [] \<longrightarrow> normalizer_contract raw) \<and>
   normalize_amount [] = None \<and>
   normalize_amount ''1.234,56'' = Some ''1234.56'' \<and>
   normalize_amount ''1,234.56'' = Some ''1234.56'' \<and>
   normalize_amount ''1234,56'' = Some ''1234.56'' \<and>
   normalize_amount ''1 234.56'' = Some ''1234.56'' \<and>
   normalize_amount ''abc'' = Some ''abc''"
proof -
  have a: "raw \<noteq> [] \<longrightarrow> normalizer_contract raw"
    using normalize_amount_cases [of raw] by (auto simp: normalizer_contract_def)
  have b: "normalize_amount [] = None" by (simp add: normalize_amount_def)
  have t1: "normalize_amount ''1.234,56'' = Some ''1234.56''" by (simp add: normalize_eval)
  have t2: "normalize_amount ''1,234.56'' = Some ''1234.56''" by (simp add: normalize_eval)
  have t3: "normalize_amount ''1234,56'' = Some ''1234.56''" by (simp add: normalize_eval)
  have t4: "normalize_amount ''1 234.56'' = Some ''1234.56''" by (simp add: normalize_eval)
  have t5: "normalize_amount ''abc'' = Some ''abc''" by (simp add: normalize_eval)
  show ?thesis using a b t1 t2 t3 t4 t5 by blast
qed

theorem C2_normalizer_contract_witness:
  "''12 500,00 kr'' \<noteq> [] \<and> normalizer_contract ''12 500,00 kr'' \<and>
   normalize_amount ''12 500,00 kr'' = Some ''12500.00''"
proof -
  have "normalizer_contract ''12 500,00 kr''"
    using C2_normalizer_contract [of "''12 500,00 kr''"] by simp
  moreover have "normalize_amount ''12 500,00 kr'' = Some ''12500.00''"
    by (simp add: normalize_eval)
  ultimately show ?thesis by simp
qed

text \<open>
  C3: a canonical amount with two decimals (one or more digits, a dot, two digits) is
  returned unchanged by the normaliser.
\<close>

theorem C3_normalize_idempotent_on_canonical:
  assumes "two_decimals x"
  shows "normalize_amount x = Some x"
proof -
  from assms obtain ds a b where x: "x = ds @ [CHR ''.'', a, b]" and ne: "ds \<noteq> []"
    and ds: "list_all is_digit ds" and a: "is_digit a" and b: "is_digit b"
    by (auto simp: two_decimals_def)
  have dot: "\<not> is_digit CHR ''.''" "\<not> is_space CHR ''.''"
    by (simp_all add: is_digit_def is_space_def)
  have nosp: "\<forall>c\<in>set x. \<not> is_space c"
    using x ds a b dot by (auto simp: list_all_iff dest: digit_not_space)
  have nocomma: "CHR '','' \<notin> set x"
    using x ds a b by (auto simp: list_all_iff dest: digit_not_comma)
  have c1: "remove_inner_ws False (strip x) = x"
    by (simp add: strip_no_space [OF nosp] remove_inner_ws_no_space [OF nosp])
  have g1: "\<not> grouped_amount (CHR ''.'') (CHR '','') x"
    using nocomma grouped_amount_dec by blast
  have g2: "\<not> grouped_amount (CHR '','') (CHR ''.'') x"
    using nocomma grouped_amount_sep by blast
  have fl: "filter (\<lambda>c. is_digit c \<or> c = CHR ''.'') x = x"
    using x ds a b by (auto simp: list_all_iff)
  have tw: "takeWhile is_digit x = ds" and dw: "dropWhile is_digit x = [CHR ''.'', a, b]"
    using ds dot by (simp_all add: x list_all_iff takeWhile_append2 dropWhile_append2)
  have fp: "float_parses x"
    by (simp add: float_parses_def tw dw a b ne)
  have "x \<noteq> []" using x by simp
  then show ?thesis
    by (simp add: normalize_amount_def c1 g1 g2 nocomma fl fp)
qed

theorem C3_normalize_idempotent_witness:
  "two_decimals ''1234.56'' \<and> normalize_amount ''1234.56'' = Some ''1234.56''"
proof -
  have h: "two_decimals ''1234.56''"
    unfolding two_decimals_def
    by (rule exI [of _ "''1234''"], rule exI [of _ "CHR ''5''"], rule exI [of _ "CHR ''6''"])
       (simp add: is_digit_def)
  show ?thesis using h C3_normalize_idempotent_on_canonical [OF h] by simp
qed


section \<open>Facts about the column mapper and the line items\<close>

lemma first_header_Some:
  "first_header kws i hs = Some j \<Longrightarrow>
     i \<le> j \<and> leftmost_hit kws hs (j - i)"
proof (induction hs arbitrary: i)
  case Nil
  then show ?case by simp
next
  case (Cons h hs)
  show ?case
  proof (cases "header_hits kws h")
    case True
    then show ?thesis using Cons.prems by (simp add: leftmost_hit_def)
  next
    case False
    then have "first_header kws (Suc i) hs = Some j" using Cons.prems by simp
    then have ih: "Suc i \<le> j" "leftmost_hit kws hs (j - Suc i)" using Cons.IH by auto
    then have "j - i = Suc (j - Suc i)" by simp
    then show ?thesis using ih False by (simp add: leftmost_hit_def)
  qed
qed

lemma first_header_None:
  "first_header kws i hs = None \<longleftrightarrow> \<not> list_ex (header_hits kws) hs"
  by (induction hs arbitrary: i) auto

lemma first_header_leftmost:
  "leftmost_hit kws hs k \<Longrightarrow> first_header kws i hs = Some (i + k)"
proof (induction hs arbitrary: i k)
  case Nil
  then show ?case by (simp add: leftmost_hit_def)
next
  case (Cons h hs)
  show ?case
  proof (cases k)
    case 0
    then show ?thesis using Cons.prems by (simp add: leftmost_hit_def)
  next
    case (Suc k')
    then have "\<not> header_hits kws h" "leftmost_hit kws hs k'"
      using Cons.prems by (simp_all add: leftmost_hit_def)
    then show ?thesis using Cons.IH [of k' "Suc i"] Suc by simp
  qed
qed

lemma set_map_filter:
  "set (List.map_filter f xs) = {y. \<exists>x\<in>set xs. f x = Some y}"
  by (induction xs) (auto split: option.splits)

lemma role_keywords_distinct: "distinct (map fst role_keywords)"
  by (simp add: role_keywords_def)

lemma map_of_role_keywords:
  "(r, kws) \<in> set role_keywords \<longleftrightarrow> map_of role_keywords r = Some kws"
  using role_keywords_distinct by (simp add: map_of_eq_Some_iff)

lemma role_keywords_total: "\<exists>kws. map_of role_keywords r = Some kws"
  by (cases r) (simp_all add: role_keywords_def)

lemma keywords_of_iff: "(r, kws) \<in> set role_keywords \<longleftrightarrow> kws = keywords_of r"
  using role_keywords_total [of r] by (auto simp: map_of_role_keywords keywords_of_def)

lemma scan_roles_set:
  "(r, i) \<in> set (scan_roles headers) \<longleftrightarrow> first_header (keywords_of r) 0 headers = Some i"
proof -
  have "(r, i) \<in> set (scan_roles headers) \<longleftrightarrow>
        (\<exists>kws. (r, kws) \<in> set role_keywords \<and> first_header kws 0 headers = Some i)"
    unfolding scan_roles_def set_map_filter by force
  then show ?thesis by (simp add: keywords_of_iff)
qed

lemma map_filter_keys_distinct:
  "distinct (map fst xs) \<Longrightarrow>
   distinct (map fst (List.map_filter (\<lambda>(r, k). map_option (Pair r) (g k)) xs))"
proof (induction xs)
  case Nil
  then show ?case by simp
next
  case (Cons x xs)
  obtain r k where x: "x = (r, k)" by (cases x)
  have "r \<notin> fst ` set (List.map_filter (\<lambda>(r, k). map_option (Pair r) (g k)) xs)"
    using Cons.prems x by (force simp: set_map_filter)
  then show ?case using Cons x by (cases "g k") simp_all
qed

lemma scan_roles_distinct: "distinct (map fst (scan_roles headers))"
  unfolding scan_roles_def by (rule map_filter_keys_distinct [OF role_keywords_distinct])

lemma scan_roles_map_of:
  "map_of (scan_roles headers) r = first_header (keywords_of r) 0 headers"
proof (cases "first_header (keywords_of r) 0 headers")
  case None
  then have "\<forall>i. (r, i) \<notin> set (scan_roles headers)" by (simp add: scan_roles_set)
  then have "map_of (scan_roles headers) r = None"
    by (metis map_of_SomeD not_Some_eq)
  then show ?thesis using None by simp
next
  case (Some i)
  then have "(r, i) \<in> set (scan_roles headers)" by (simp add: scan_roles_set)
  then show ?thesis using Some scan_roles_distinct by (simp add: map_of_eq_Some_iff)
qed

lemma scan_roles_keys: "r \<in> fst ` set (scan_roles headers) \<longleftrightarrow> role_present headers r"
proof -
  have "r \<in> fst ` set (scan_roles headers) \<longleftrightarrow> (\<exists>i. (r, i) \<in> set (scan_roles headers))"
    by force
  also have "\<dots> \<longleftrightarrow> first_header (keywords_of r) 0 headers \<noteq> None"
    by (simp add: scan_roles_set)
  also have "\<dots> \<longleftrightarrow> role_present headers r"
    by (simp add: first_header_None role_present_def)
  finally show ?thesis .
qed

lemma accepted_scan:
  "role_present headers Description \<or> role_present headers Amount \<Longrightarrow>
   map_line_item_columns headers = scan_roles headers"
  by (simp add: map_line_item_columns_def Let_def scan_roles_keys)

lemma rejected_scan:
  "\<not> role_present headers Description \<Longrightarrow> \<not> role_present headers Amount \<Longrightarrow>
   map_line_item_columns headers = []"
  by (simp add: map_line_item_columns_def Let_def scan_roles_keys)

lemma nonempty_scan:
  "map_line_item_columns headers \<noteq> [] \<Longrightarrow>
   map_line_item_columns headers = scan_roles headers \<and>
   (role_present headers Description \<or> role_present headers Amount)"
  by (auto simp: map_line_item_columns_def Let_def scan_roles_keys split: if_splits)

lemma leftmost_hit_iff:
  "first_header kws 0 hs = Some i \<longleftrightarrow> leftmost_hit kws hs i"
  using first_header_Some [of kws 0 hs i] first_header_leftmost [of kws hs i 0] by auto

lemma starts_with_append: "starts_with (xs @ ys) s \<Longrightarrow> starts_with xs s"
  by (induction xs s rule: starts_with.induct) auto

lemma contains_append: "contains (xs @ ys) s \<Longrightarrow> contains xs s"
  by (induction s) (auto dest: starts_with_append)

lemma item_fields_lookup:
  "map_of m rl = Some c \<Longrightarrow> c < length r \<Longrightarrow>
   map_of (List.map_filter (item_entry r) m) rl =
     Some (if numeric_role rl then normalize_amount (cell_text (r ! c))
           else Some (cell_text (r ! c)))"
proof (induction m)
  case Nil
  then show ?case by simp
next
  case (Cons e m)
  obtain rl' c' where e: "e = (rl', c')" by (cases e)
  show ?case
  proof (cases "rl' = rl")
    case True
    then have "c' = c" using Cons.prems e by simp
    then have "item_entry r e =
      Some (rl, if numeric_role rl then normalize_amount (cell_text (r ! c))
                else Some (cell_text (r ! c)))"
      using True e Cons.prems by (simp add: item_entry_def Let_def)
    then show ?thesis by simp
  next
    case False
    then have "map_of m rl = Some c" using Cons.prems e by simp
    then have ih: "map_of (List.map_filter (item_entry r) m) rl =
      Some (if numeric_role rl then normalize_amount (cell_text (r ! c))
            else Some (cell_text (r ! c)))"
      using Cons.IH Cons.prems by simp
    have "item_entry r e = None \<or> (\<exists>v. item_entry r e = Some (rl', v))"
      using e by (simp add: item_entry_def Let_def)
    then show ?thesis using False ih by auto
  qed
qed

lemma rows_to_items_origin:
  "item \<in> set (rows_to_items m k rows) \<Longrightarrow>
   \<exists>k'. \<exists>r\<in>set rows. item = make_item m k' r"
proof (induction rows arbitrary: k)
  case Nil
  then show ?case by simp
next
  case (Cons r rows)
  then show ?case by (fastforce simp: Let_def split: if_splits)
qed

lemma table_items_origin:
  "item \<in> set (table_items (hdr # body)) \<Longrightarrow>
   \<exists>k'. \<exists>r\<in>set body. item = make_item (map_line_item_columns (header_row hdr)) k' r"
  by (auto simp: table_items_def Let_def split: if_splits dest: rows_to_items_origin)

section \<open>Claims about the column mapper\<close>

lemma accepted_nonempty:
  assumes "role_present headers Description \<or> role_present headers Amount"
  shows "map_line_item_columns headers \<noteq> []"
proof -
  have "map_line_item_columns headers = scan_roles headers"
    using assms by (rule accepted_scan)
  moreover have "Description \<in> fst ` set (scan_roles headers) \<or>
      Amount \<in> fst ` set (scan_roles headers)"
    using assms by (simp add: scan_roles_keys)
  ultimately show ?thesis by auto
qed

lemma table_items_accepted:
  "role_present (header_row hdr) Description \<or> role_present (header_row hdr) Amount \<Longrightarrow>
   table_items (hdr # body) = rows_to_items (map_line_item_columns (header_row hdr)) 1 body"
  using accepted_nonempty [of "header_row hdr"]
  by (cases body) (simp_all add: table_items_def Let_def)

text \<open>
  C6, as stated: the mapper assigns each role the leftmost header that holds one of the
  role's keywords. It fails on a header list without a description and without an amount
  header: the quantity role has its leftmost hit in column 0, yet the returned role map
  is empty and assigns nothing.
\<close>

theorem C6_rejected_table_counterexample:
  "leftmost_hit (keywords_of Quantity) [''qty'', ''unit price''] 0 \<and>
   map_of (map_line_item_columns [''qty'', ''unit price'']) Quantity = None"
  by code_simp

text \<open>
  C6, amended: when some header holds a description or an amount keyword, the mapper
  returns a non-empty role map, a dictionary, that assigns every role exactly the leftmost
  header holding one of the role's keywords; for every other header list it returns the
  empty role map. So a non-empty role map always holds the description or the amount role.
  A table whose header row maps neither of the two contributes no line item, and any other
  table contributes the items of its body rows under that role map.
\<close>

theorem C6_column_mapper:
  "(role_present headers Description \<or> role_present headers Amount \<longrightarrow>
      map_line_item_columns headers \<noteq> [] \<and>
      distinct (map fst (map_line_item_columns headers)) \<and>
      (\<forall>r i. map_of (map_line_item_columns headers) r = Some i \<longleftrightarrow>
             leftmost_hit (keywords_of r) headers i)) \<and>
   (\<not> role_present headers Description \<and> \<not> role_present headers Amount \<longrightarrow>
      map_line_item_columns headers = []) \<and>
   (map_line_item_columns headers \<noteq> [] \<longrightarrow>
      Description \<in> fst ` set (map_line_item_columns headers) \<or>
      Amount \<in> fst ` set (map_line_item_columns headers)) \<and>
   (\<not> role_present (header_row hdr) Description \<and> \<not> role_present (header_row hdr) Amount \<longrightarrow>
      table_items (hdr # body) = [] \<and>
      extract_line_items (ts @ (hdr # body) # ts') = extract_line_items (ts @ ts')) \<and>
   (role_present (header_row hdr) Description \<or> role_present (header_row hdr) Amount \<longrightarrow>
      table_items (hdr # body) =
        rows_to_items (map_line_item_columns (header_row hdr)) 1 body \<and>
      extract_line_items (ts @ (hdr # body) # ts') =
        extract_line_items ts @
        rows_to_items (map_line_item_columns (header_row hdr)) 1 body @
        extract_line_items ts')"
proof -
  let ?m = "map_line_item_columns headers"
  have a: "role_present headers Description \<or> role_present headers Amount \<longrightarrow>
      ?m \<noteq> [] \<and> distinct (map fst ?m) \<and>
      (\<forall>r i. map_of ?m r = Some i \<longleftrightarrow> leftmost_hit (keywords_of r) headers i)"
  proof
    assume acc: "role_present headers Description \<or> role_present headers Amount"
    then have m: "?m = scan_roles headers" by (rule accepted_scan)
    have ne: "?m \<noteq> []" using acc by (rule accepted_nonempty)
    have d: "distinct (map fst ?m)" by (simp add: m scan_roles_distinct)
    have l: "\<forall>r i. map_of ?m r = Some i \<longleftrightarrow> leftmost_hit (keywords_of r) headers i"
      by (simp add: m scan_roles_map_of leftmost_hit_iff)
    show "?m \<noteq> [] \<and> distinct (map fst ?m) \<and>
      (\<forall>r i. map_of ?m r = Some i \<longleftrightarrow> leftmost_hit (keywords_of r) headers i)"
      using ne d l by blast
  qed
  have b: "\<not> role_present headers Description \<and> \<not> role_present headers Amount \<longrightarrow> ?m = []"
    using rejected_scan by blast
  have c: "?m \<noteq> [] \<longrightarrow> Description \<in> fst ` set ?m \<or> Amount \<in> fst ` set ?m"
  proof
    assume ne: "?m \<noteq> []"
    then have "?m = scan_roles headers"
      "role_present headers Description \<or> role_present headers Amount"
      using nonempty_scan by blast+
    then show "Description \<in> fst ` set ?m \<or> Amount \<in> fst ` set ?m"
      by (simp add: scan_roles_keys)
  qed
  have d: "\<not> role_present (header_row hdr) Description \<and>
      \<not> role_present (header_row hdr) Amount \<longrightarrow>
      table_items (hdr # body) = [] \<and>
      extract_line_items (ts @ (hdr # body) # ts') = extract_line_items (ts @ ts')"
  proof
    assume h: "\<not> role_present (header_row hdr) Description \<and>
      \<not> role_present (header_row hdr) Amount"
    then have "map_line_item_columns (header_row hdr) = []" using rejected_scan by blast
    then have t: "table_items (hdr # body) = []" by (simp add: table_items_def)
    then show "table_items (hdr # body) = [] \<and>
      extract_line_items (ts @ (hdr # body) # ts') = extract_line_items (ts @ ts')"
      by (simp add: extract_line_items_def)
  qed
  have e: "role_present (header_row hdr) Description \<or>
      role_present (header_row hdr) Amount \<longrightarrow>
      table_items (hdr # body) =
        rows_to_items (map_line_item_columns (header_row hdr)) 1 body \<and>
      extract_line_items (ts @ (hdr # body) # ts') =
        extract_line_items ts @
        rows_to_items (map_line_item_columns (header_row hdr)) 1 body @
        extract_line_items ts'"
  proof
    assume "role_present (header_row hdr) Description \<or>
      role_present (header_row hdr) Amount"
    then have t: "table_items (hdr # body) =
        rows_to_items (map_line_item_columns (header_row hdr)) 1 body"
      by (rule table_items_accepted)
    then show "table_items (hdr # body) =
        rows_to_items (map_line_item_columns (header_row hdr)) 1 body \<and>
      extract_line_items (ts @ (hdr # body) # ts') =
        extract_line_items ts @
        rows_to_items (map_line_item_columns (header_row hdr)) 1 body @
        extract_line_items ts'"
      by (simp add: extract_line_items_def)
  qed
  show ?thesis using a b c d e by blast
qed

theorem C6_column_mapper_witness:
  "(role_present [''description'', ''qty'', ''unit price'', ''amount''] Description \<or>
    role_present [''description'', ''qty'', ''unit price'', ''amount''] Amount) \<and>
   map_line_item_columns [''description'', ''qty'', ''unit price'', ''amount''] \<noteq> [] \<and>
   map_of (map_line_item_columns [''description'', ''qty'', ''unit price'', ''amount''])
     Unit_price = Some 2 \<and>
   (Description \<in> fst ` set (map_line_item_columns
        [''description'', ''qty'', ''unit price'', ''amount'']) \<or>
    Amount \<in> fst ` set (map_line_item_columns
        [''description'', ''qty'', ''unit price'', ''amount''])) \<and>
   \<not> role_present (header_row [Some ''Name'', Some ''Street'']) Description \<and>
   \<not> role_present (header_row [Some ''Name'', Some ''Street'']) Amount \<and>
   map_line_item_columns (header_row [Some ''Name'', Some ''Street'']) = [] \<and>
   table_items [[Some ''Name'', Some ''Street''], [Some ''Bob'', Some ''Main St 1'']] = []"
proof -
  let ?hs = "[''description'', ''qty'', ''unit price'', ''amount'']"
  let ?hdr = "[Some ''Name'', Some ''Street'']"
  let ?body = "[[Some ''Bob'', Some ''Main St 1'']]"
  note c = C6_column_mapper [of ?hs ?hdr ?body "[]" "[]"]
  note c' = C6_column_mapper [of "header_row ?hdr" ?hdr ?body "[]" "[]"]
  have e0: "role_present ?hs Description \<or> role_present ?hs Amount" by code_simp
  have e2: "leftmost_hit (keywords_of Unit_price) ?hs 2" by code_simp
  have e3: "\<not> role_present (header_row ?hdr) Description" by code_simp
  have e4: "\<not> role_present (header_row ?hdr) Amount" by code_simp
  from c e0 have e1: "map_line_item_columns ?hs \<noteq> []" by blast
  from c e0 have "\<forall>r i. map_of (map_line_item_columns ?hs) r = Some i \<longleftrightarrow>
      leftmost_hit (keywords_of r) ?hs i" by blast
  then have w1: "map_of (map_line_item_columns ?hs) Unit_price = Some 2" using e2 by blast
  from c e1 have w2: "Description \<in> fst ` set (map_line_item_columns ?hs) \<or>
      Amount \<in> fst ` set (map_line_item_columns ?hs)" by blast
  from c' e3 e4 have w3: "map_line_item_columns (header_row ?hdr) = []" by blast
  from c e3 e4 have w4: "table_items (?hdr # ?body) = []" by blast
  show ?thesis using e0 e1 w1 w2 e3 e4 w3 w4 by blast
qed

text \<open>
  C10, as stated: a header that contains both \<^verbatim>\<open>unit\<close> and \<^verbatim>\<open>unit price\<close> has its
  column assigned to both the unit and the unit_price role. It fails when an earlier
  header already holds a unit keyword: the roles are scanned independently and each takes
  its own leftmost hit.
\<close>

theorem C10_earlier_unit_header_counterexample:
  "contains ''unit'' ''unit price'' \<and> contains ''unit price'' ''unit price'' \<and>
   map_of (map_line_item_columns [''description'', ''unit'', ''unit price'']) Unit = Some 1 \<and>
   map_of (map_line_item_columns [''description'', ''unit'', ''unit price'']) Unit_price = Some 2"
  by code_simp

text \<open>
  C10, amended: roles are mapped independently, so one column can serve several roles. If
  a header contains \<^verbatim>\<open>unit price\<close> (and with it \<^verbatim>\<open>unit\<close>), no header to its left holds
  a keyword of the unit or of the unit_price role, and the header row maps the description
  or the amount role, then its column is assigned to both roles, and every line item of
  the table comes from a body row and, when that row reaches the column, carries the
  trimmed cell text as \<^verbatim>\<open>unit\<close> and its normalised form as \<^verbatim>\<open>unit_price\<close>.
\<close>

theorem C10_shared_unit_column:
  assumes i: "i < length (header_row hdr)"
    and up: "contains ''unit price'' (header_row hdr ! i)"
    and first: "list_all (\<lambda>h. \<not> header_hits (keywords_of Unit) h \<and>
                                \<not> header_hits (keywords_of Unit_price) h)
                         (take i (header_row hdr))"
    and acc: "role_present (header_row hdr) Description \<or> role_present (header_row hdr) Amount"
  shows "map_of (map_line_item_columns (header_row hdr)) Unit = Some i \<and>
         map_of (map_line_item_columns (header_row hdr)) Unit_price = Some i \<and>
         (\<forall>item \<in> set (table_items (hdr # body)).
            \<exists>k. \<exists>r \<in> set body.
              item = make_item (map_line_item_columns (header_row hdr)) k r \<and>
              (i < length r \<longrightarrow>
                 map_of (item_fields item) Unit = Some (Some (cell_text (r ! i))) \<and>
                 map_of (item_fields item) Unit_price =
                   Some (normalize_amount (cell_text (r ! i)))))"
proof -
  let ?hs = "header_row hdr"
  let ?m = "map_line_item_columns ?hs"
  have kU: "''unit'' \<in> set (keywords_of Unit)"
    by (simp add: keywords_of_def role_keywords_def)
  have kP: "''unit price'' \<in> set (keywords_of Unit_price)"
    by (simp add: keywords_of_def role_keywords_def)
  have "contains (''unit'' @ '' price'') (?hs ! i)" using up by simp
  then have "contains ''unit'' (?hs ! i)" by (rule contains_append)
  then have hU: "header_hits (keywords_of Unit) (?hs ! i)"
    using kU unfolding header_hits_def list_ex_iff by blast
  have hP: "header_hits (keywords_of Unit_price) (?hs ! i)"
    using kP up unfolding header_hits_def list_ex_iff by blast
  have lU: "leftmost_hit (keywords_of Unit) ?hs i"
    using i hU first by (simp add: leftmost_hit_def list_all_iff)
  have lP: "leftmost_hit (keywords_of Unit_price) ?hs i"
    using i hP first by (simp add: leftmost_hit_def list_all_iff)
  have m: "?m = scan_roles ?hs" using acc by (rule accepted_scan)
  have mU: "map_of ?m Unit = Some i"
    by (simp add: m scan_roles_map_of leftmost_hit_iff lU)
  have mP: "map_of ?m Unit_price = Some i"
    by (simp add: m scan_roles_map_of leftmost_hit_iff lP)
  have nU: "\<not> numeric_role Unit" and nP: "numeric_role Unit_price"
    by (simp_all add: numeric_role_def)
  have rows: "\<forall>item \<in> set (table_items (hdr # body)).
            \<exists>k. \<exists>r \<in> set body.
              item = make_item ?m k r \<and>
              (i < length r \<longrightarrow>
                 map_of (item_fields item) Unit = Some (Some (cell_text (r ! i))) \<and>
                 map_of (item_fields item) Unit_price =
                   Some (normalize_amount (cell_text (r ! i))))"
  proof
    fix item assume "item \<in> set (table_items (hdr # body))"
    then obtain k r where r: "r \<in> set body" and it: "item = make_item ?m k r"
      using table_items_origin by blast
    have "i < length r \<longrightarrow>
                 map_of (item_fields item) Unit = Some (Some (cell_text (r ! i))) \<and>
                 map_of (item_fields item) Unit_price =
                   Some (normalize_amount (cell_text (r ! i)))"
    proof
      assume len: "i < length r"
      have f: "item_fields item = List.map_filter (item_entry r) ?m"
        using it by (simp add: make_item_def)
      show "map_of (item_fields item) Unit = Some (Some (cell_text (r ! i))) \<and>
                 map_of (item_fields item) Unit_price =
                   Some (normalize_amount (cell_text (r ! i)))"
        using item_fields_lookup [OF mU len] item_fields_lookup [OF mP len] nU nP f
        by simp
    qed
    then show "\<exists>k. \<exists>r \<in> set body.
              item = make_item ?m k r \<and>
              (i < length r \<longrightarrow>
                 map_of (item_fields item) Unit = Some (Some (cell_text (r ! i))) \<and>
                 map_of (item_fields item) Unit_price =
                   Some (normalize_amount (cell_text (r ! i))))"
      using r it by blast
  qed
  show ?thesis using mU mP rows by blast
qed

theorem C10_shared_unit_column_witness:
  "2 < length (header_row [Some ''Description'', Some ''Qty'', Some ''Unit Price'', Some ''Amount'']) \<and>
   contains ''unit price''
     (header_row [Some ''Description'', Some ''Qty'', Some ''Unit Price'', Some ''Amount''] ! 2) \<and>
   map_of (map_line_item_columns
     (header_row [Some ''Description'', Some ''Qty'', Some ''Unit Price'', Some ''Amount'']))
     Unit = Some 2 \<and>
   map_of (map_line_item_columns
     (header_row [Some ''Description'', Some ''Qty'', Some ''Unit Price'', Some ''Amount'']))
     Unit_price = Some 2 \<and>
   table_items [[Some ''Description'', Some ''Qty'', Some ''Unit Price'', Some ''Amount''],
                [Some ''Consulting'', Some ''10'', Some ''1000.00'', Some ''10000.00'']] =
     [\<lparr>line_no = 1,
       item_fields = [(Description, Some ''Consulting''), (Quantity, Some ''10''),
                      (Unit, Some ''1000.00''), (Unit_price, Some ''1000.00''),
                      (Amount, Some ''10000.00'')]\<rparr>]"
proof -
  let ?hdr = "[Some ''Description'', Some ''Qty'', Some ''Unit Price'', Some ''Amount'']"
  have h1: "2 < length (header_row ?hdr)" by code_simp
  have h2: "contains ''unit price'' (header_row ?hdr ! 2)" by code_simp
  have h3: "list_all (\<lambda>h. \<not> header_hits (keywords_of Unit) h \<and>
                            \<not> header_hits (keywords_of Unit_price) h)
                     (take 2 (header_row ?hdr))" by code_simp
  have h4: "role_present (header_row ?hdr) Description \<or> role_present (header_row ?hdr) Amount"
    by code_simp
  have t: "table_items [?hdr,
                [Some ''Consulting'', Some ''10'', Some ''1000.00'', Some ''10000.00'']] =
     [\<lparr>line_no = 1,
       item_fields = [(Description, Some ''Consulting''), (Quantity, Some ''10''),
                      (Unit, Some ''1000.00''), (Unit_price, Some ''1000.00''),
                      (Amount, Some ''10000.00'')]\<rparr>]" by code_simp
  show ?thesis using h1 h2 t C10_shared_unit_column [OF h1 h2 h3 h4, of "[]"] by simp
qed


section \<open>Facts about double rounding\<close>

lemma normalise_up:
  "0 < x \<Longrightarrow> 2 ^ 52 \<le> x * 2 ^ k \<Longrightarrow> x * 2 ^ k < 2 ^ 53 \<Longrightarrow> k \<le> n \<Longrightarrow>
   normalise n x e = (x * 2 ^ k, e - int k)"
proof (induction k arbitrary: x n e)
  case 0
  then show ?case by (cases n) simp_all
next
  case (Suc k)
  from Suc.prems obtain n' where n: "n = Suc n'" and kn: "k \<le> n'" by (cases n) auto
  have "x * 2 \<le> x * 2 ^ Suc k"
    using Suc.prems(1) by (simp add: mult_le_cancel_left_pos self_le_power)
  then have small: "x < 2 ^ 52" using Suc.prems(3) by simp
  have "normalise n' (x * 2) (e - 1) = (x * 2 * 2 ^ k, e - 1 - int k)"
    using Suc.IH [of "x * 2" n' "e - 1"] Suc.prems kn by (simp add: mult.assoc)
  then show ?case using small n by (simp add: mult.assoc)
qed

lemma round_double_scaled:
  assumes "0 < x" "k \<le> 2200" "2 ^ 52 \<le> x * 2 ^ k" "x * 2 ^ k < 2 ^ 53"
  shows "round_double x = of_int (round_half_even (x * 2 ^ k)) / 2 ^ k"
proof -
  have "normalise 2200 \<bar>x\<bar> 0 = (x * 2 ^ k, - int k)"
    using normalise_up [of x k 2200 0] assms by simp
  then show ?thesis using assms(1) by (simp add: round_double_def)
qed

lemma round_double_0: "round_double 0 = 0"
  by (simp add: round_double_def)

lemma round_half_even_frac:
  assumes "0 < q"
  shows "round_half_even (of_int p / of_int q) =
     (if 2 * (p mod q) < q then p div q
      else if q < 2 * (p mod q) then p div q + 1
      else if even (p div q) then p div q else p div q + 1)"
proof -
  let ?x = "of_int p / of_int q :: rat"
  have f: "\<lfloor>?x\<rfloor> = p div q" by (simp add: floor_divide_of_int_eq)
  have "of_int p = (of_int (p div q) * of_int q + of_int (p mod q) :: rat)"
    by (metis div_mult_mod_eq of_int_add of_int_mult)
  then have d: "?x - of_int (p div q) = of_int (p mod q) / of_int q"
    using assms by (simp add: field_simps)
  have lt: "of_int (p mod q) / (of_int q :: rat) < 1 / 2 \<longleftrightarrow> 2 * (p mod q) < q"
  proof -
    have "of_int (p mod q) / (of_int q :: rat) < 1 / 2 \<longleftrightarrow>
          (of_int (2 * (p mod q)) :: rat) < of_int q"
      using assms by (simp add: field_simps)
    then show ?thesis by (simp only: of_int_less_iff)
  qed
  have gt: "1 / 2 < of_int (p mod q) / (of_int q :: rat) \<longleftrightarrow> q < 2 * (p mod q)"
  proof -
    have "1 / 2 < of_int (p mod q) / (of_int q :: rat) \<longleftrightarrow>
          (of_int q :: rat) < of_int (2 * (p mod q))"
      using assms by (simp add: field_simps)
    then show ?thesis by (simp only: of_int_less_iff)
  qed
  show ?thesis
    unfolding round_half_even_def Let_def f d lt gt by simp
qed

lemma round_half_even_numeral_frac:
  "round_half_even (numeral a / numeral b) =
     (if 2 * (numeral a mod numeral b) < (numeral b :: int) then numeral a div numeral b
      else if (numeral b :: int) < 2 * (numeral a mod numeral b)
           then numeral a div numeral b + 1
      else if even (numeral a div numeral b :: int) then numeral a div numeral b
           else numeral a div numeral b + 1)"
  using round_half_even_frac [of "numeral b" "numeral a"] by simp

lemma round_half_even_numeral: "round_half_even (numeral a) = numeral a"
  by (simp add: round_half_even_def)

lemma round_half_even_1: "round_half_even 1 = 1"
  by (simp add: round_half_even_def)

text \<open>The rounding by binade, for the magnitudes that confidences and their sums reach.\<close>

lemma round_double_binade:
  "1 / 2 \<le> x \<Longrightarrow> x < 1 \<Longrightarrow> round_double x = of_int (round_half_even (x * 2 ^ 53)) / 2 ^ 53"
  "1 \<le> x \<Longrightarrow> x < 2 \<Longrightarrow> round_double x = of_int (round_half_even (x * 2 ^ 52)) / 2 ^ 52"
  "2 \<le> x \<Longrightarrow> x < 4 \<Longrightarrow> round_double x = of_int (round_half_even (x * 2 ^ 51)) / 2 ^ 51"
  "4 \<le> x \<Longrightarrow> x < 8 \<Longrightarrow> round_double x = of_int (round_half_even (x * 2 ^ 50)) / 2 ^ 50"
  "8 \<le> x \<Longrightarrow> x < 16 \<Longrightarrow> round_double x = of_int (round_half_even (x * 2 ^ 49)) / 2 ^ 49"
  "16 \<le> x \<Longrightarrow> x < 32 \<Longrightarrow> round_double x = of_int (round_half_even (x * 2 ^ 48)) / 2 ^ 48"
  by (rule round_double_scaled; simp)+

lemmas float_eval =
  round_double_binade round_double_0 round_half_even_numeral_frac round_half_even_numeral
  round_half_even_1 float_lit_def

lemma float_literals:
  "float_lit (1 / 2) = 1 / 2"
  "float_lit (3 / 5) = 5404319552844595 / 9007199254740992"
  "float_lit (13 / 20) = 5854679515581645 / 9007199254740992"
  "float_lit (7 / 10) = 3152519739159347 / 4503599627370496"
  "float_lit (3 / 4) = 3 / 4"
  "float_lit (4 / 5) = 3602879701896397 / 4503599627370496"
  "float_lit (41 / 50) = 7385903388887613 / 9007199254740992"
  "float_lit (17 / 20) = 7656119366529843 / 9007199254740992"
  "float_lit (9 / 10) = 8106479329266893 / 9007199254740992"
  "float_lit (19 / 20) = 4278419646001971 / 4503599627370496"
  by (simp_all add: float_eval)

section \<open>Facts about the aggregator\<close>

lemma accumulate_exact:
  "accumulate_with (\<lambda>x. x) ks fc (s, t) =
     (s + (\<Sum>(f, c)\<leftarrow>fc. c * field_weight ks f), t + (\<Sum>(f, c)\<leftarrow>fc. field_weight ks f))"
  by (induction fc arbitrary: s t) (auto simp: field_weight_def Let_def)

lemma field_weight_pos: "0 < field_weight ks f"
  by (simp add: field_weight_def)

lemma total_weight_pos:
  "fc \<noteq> [] \<Longrightarrow> 0 < (\<Sum>(f, c)\<leftarrow>fc. field_weight ks f)"
proof (induction fc)
  case Nil
  then show ?case by simp
next
  case (Cons e fc)
  obtain f c where e: "e = (f, c)" by (cases e)
  have "0 \<le> (\<Sum>(f, c)\<leftarrow>fc. field_weight ks f)"
    using Cons.IH by (cases "fc = []") auto
  then show ?case using e field_weight_pos [of ks f] by simp
qed

lemma exact_is_weighted_mean:
  "fc \<noteq> [] \<Longrightarrow> calculate_with (\<lambda>x. x) fc ks = weighted_mean fc ks"
  using total_weight_pos [of fc ks]
  by (simp add: calculate_with_def accumulate_exact weighted_mean_def)

lemma weighted_mean_two_equal: "weighted_mean [(a, c), (b, c)] ks = c"
proof -
  let ?wa = "field_weight ks a" and ?wb = "field_weight ks b"
  have pos: "0 < ?wa + ?wb"
    using field_weight_pos [of ks a] field_weight_pos [of ks b] by simp
  have "weighted_mean [(a, c), (b, c)] ks = c * (?wa + ?wb) / (?wa + ?wb)"
    by (simp add: weighted_mean_def distrib_left)
  also have "\<dots> = c" using pos by simp
  finally show ?thesis .
qed

lemma accumulate_double:
  "accumulate_with round_double ks fc (s, t) =
     (foldl (\<lambda>s x. round_double (s + x)) s
        (map (\<lambda>(f, c). round_double (c * field_weight ks f)) fc),
      foldl (\<lambda>s x. round_double (s + x)) t (map (\<lambda>(f, c). field_weight ks f) fc))"
  by (induction fc arbitrary: s t) (auto simp: field_weight_def Let_def)

lemma calculate_is_double_mean:
  "fc \<noteq> [] \<Longrightarrow> calculate_weighted_confidence fc ks = double_weighted_mean fc ks"
  by (simp add: calculate_weighted_confidence_def calculate_with_def accumulate_double
      double_weighted_mean_def double_sum_def Let_def)

section \<open>Claims about the aggregator\<close>

text \<open>
  C5, as stated: for a map of two fields of equal confidence, moving a field into the
  key-field set does not change the result. In double arithmetic it fails for the
  confidence 0.8: without key fields the aggregator returns 0.8, and with the first field
  a key field it returns the next double above, 0.8000000000000002.
\<close>

theorem C5_rounding_counterexample:
  "calculate_weighted_confidence [(''a'', float_lit (4 / 5)), (''b'', float_lit (4 / 5))] []
     = 3602879701896397 / 4503599627370496 \<and>
   calculate_weighted_confidence [(''a'', float_lit (4 / 5)), (''b'', float_lit (4 / 5))] [''a'']
     = 7205759403792795 / 9007199254740992"
  by (simp add: calculate_weighted_confidence_def calculate_with_def float_eval)

text \<open>
  C5, amended: the aggregator returns 0.0 for the empty map; for a non-empty map it
  returns the quotient of the weighted confidence sum by the weight sum, with weight 2.0
  for key fields and 1.0 for the others, computed in double arithmetic in the insertion
  order of the map; in exact arithmetic the same computation is the weighted mean; and
  for a map of two fields of equal confidence the weighted mean is that confidence,
  whichever field is added to the key fields (the computed double may differ from it in
  the last place).
\<close>

theorem C5_weighted_confidence:
  "calculate_weighted_confidence [] ks = 0 \<and>
   (fc \<noteq> [] \<longrightarrow> calculate_weighted_confidence fc ks = double_weighted_mean fc ks) \<and>
   (fc \<noteq> [] \<longrightarrow> calculate_with (\<lambda>x. x) fc ks = weighted_mean fc ks) \<and>
   (a \<noteq> b \<longrightarrow>
      weighted_mean [(a, c), (b, c)] ks = c \<and>
      weighted_mean [(a, c), (b, c)] (a # ks) = weighted_mean [(a, c), (b, c)] ks \<and>
      weighted_mean [(a, c), (b, c)] (b # ks) = weighted_mean [(a, c), (b, c)] ks)"
proof -
  have e: "calculate_weighted_confidence [] ks = 0"
    by (simp add: calculate_weighted_confidence_def calculate_with_def)
  have d: "fc \<noteq> [] \<longrightarrow> calculate_weighted_confidence fc ks = double_weighted_mean fc ks"
    by (simp add: calculate_is_double_mean)
  have x: "fc \<noteq> [] \<longrightarrow> calculate_with (\<lambda>x. x) fc ks = weighted_mean fc ks"
    by (simp add: exact_is_weighted_mean)
  have t: "weighted_mean [(a, c), (b, c)] ks = c \<and>
      weighted_mean [(a, c), (b, c)] (a # ks) = weighted_mean [(a, c), (b, c)] ks \<and>
      weighted_mean [(a, c), (b, c)] (b # ks) = weighted_mean [(a, c), (b, c)] ks"
    by (simp only: weighted_mean_two_equal)
  show ?thesis using e d x t by blast
qed

theorem C5_weighted_confidence_witness:
  "[(''total_amount'', float_lit (9 / 10)), (''currency'', float_lit (17 / 20))] \<noteq> [] \<and>
   calculate_weighted_confidence
     [(''total_amount'', float_lit (9 / 10)), (''currency'', float_lit (17 / 20))]
     [''total_amount''] = 1989089835421969 / 2251799813685248 \<and>
   double_weighted_mean
     [(''total_amount'', float_lit (9 / 10)), (''currency'', float_lit (17 / 20))]
     [''total_amount''] = 1989089835421969 / 2251799813685248 \<and>
   calculate_with (\<lambda>x. x) [(''total_amount'', 9 / 10), (''currency'', 17 / 20)]
     [''total_amount''] = 53 / 60 \<and>
   weighted_mean [(''total_amount'', 9 / 10), (''currency'', 17 / 20)]
     [''total_amount''] = 53 / 60 \<and>
   ''vendor_name'' \<noteq> ''currency'' \<and>
   weighted_mean [(''vendor_name'', 17 / 20), (''currency'', 17 / 20)] [''vendor_name''] =
   weighted_mean [(''vendor_name'', 17 / 20), (''currency'', 17 / 20)] []"
proof -
  let ?fc = "[(''total_amount'', float_lit (9 / 10)), (''currency'', float_lit (17 / 20))]"
  let ?ex = "[(''total_amount'', 9 / 10 :: rat), (''currency'', 17 / 20)]"
  have ne: "?fc \<noteq> []" and ne': "?ex \<noteq> []" by simp_all
  have v: "calculate_weighted_confidence ?fc [''total_amount''] =
      1989089835421969 / 2251799813685248"
    by (simp add: calculate_weighted_confidence_def calculate_with_def float_eval)
  have x: "calculate_with (\<lambda>x. x) ?ex [''total_amount''] = 53 / 60"
    by (simp add: calculate_with_def)
  have d: "''vendor_name'' \<noteq> ''currency''" by simp
  note c1 = C5_weighted_confidence [of "[''total_amount'']" ?fc "''x''" "''y''" 0]
  note c2 = C5_weighted_confidence [of "[''total_amount'']" ?ex "''x''" "''y''" 0]
  note c3 = C5_weighted_confidence [of "[]" "[]" "''vendor_name''" "''currency''" "17 / 20"]
  from c1 ne v have w1: "double_weighted_mean ?fc [''total_amount''] =
      1989089835421969 / 2251799813685248" by metis
  from c2 ne' x have w2: "weighted_mean ?ex [''total_amount''] = 53 / 60" by metis
  from c3 d have w3: "weighted_mean [(''vendor_name'', 17 / 20), (''currency'', 17 / 20)]
      [''vendor_name''] =
    weighted_mean [(''vendor_name'', 17 / 20), (''currency'', 17 / 20)] []" by metis
  show ?thesis using ne v w1 x w2 d w3 by blast
qed

section \<open>Facts about the classifier\<close>

lemma starts_with_set: "starts_with kw s \<Longrightarrow> set kw \<subseteq> set s"
  by (induction kw s rule: starts_with.induct) auto

lemma contains_set: "contains kw s \<Longrightarrow> set kw \<subseteq> set s"
proof (induction s)
  case Nil
  then show ?case by simp
next
  case (Cons a s)
  then show ?case using starts_with_set [of kw "a # s"] by auto
qed

lemma lower_space: "is_space c \<Longrightarrow> lower_char c = c"
  by (auto simp: is_space_def lower_char_def)

lemma lower_all_space: "list_all is_space s \<Longrightarrow> lower s = s"
  by (induction s) (auto simp: lower_def lower_space)

lemma no_word_in_space:
  assumes "list_all is_space s" "w \<noteq> []" "\<not> is_space (hd w)"
  shows "\<not> contains w s"
proof
  assume "contains w s"
  then have "set w \<subseteq> set s" by (rule contains_set)
  moreover have "hd w \<in> set w" using assms(2) by simp
  ultimately have "is_space (hd w)" using assms(1) by (auto simp: list_all_iff)
  then show False using assms(3) by simp
qed

lemma words_start_with_letter:
  "\<forall>w \<in> set (invoice_words @ contract_words @ statement_words). w \<noteq> [] \<and> \<not> is_space (hd w)"
  by (simp add: invoice_words_def contract_words_def statement_words_def is_space_def)

lemma classify_space:
  assumes "list_all is_space s" shows "classify_text s = Generic"
proof -
  have "\<forall>w \<in> set (invoice_words @ contract_words @ statement_words). \<not> contains w s"
    using words_start_with_letter no_word_in_space [OF assms] by blast
  then show ?thesis by (auto simp: classify_text_def any_word_in_def list_ex_iff)
qed

lemma classify_empty: "classify_text [] = Generic"
  by (rule classify_space) simp

text \<open>
  C7: the classifier looks at the first page only; it answers one of the four document
  types; the word groups are tried in the order invoice, contract, statement and the
  first group with a hit wins; with no hit, and in particular for an empty or
  white-space-only first page, no page at all, or a reader that raises, the answer is
  generic.
\<close>

theorem C7_document_type_classifier:
  "detect_document_type (Inr (p # ps)) = detect_document_type (Inr [p]) \<and>
   detect_document_type pdf \<in> {Invoice, Contract, Statement, Generic} \<and>
   (extract_text p = Inr t \<longrightarrow>
      (detect_document_type (Inr (p # ps)) = Invoice \<longleftrightarrow>
         any_word_in invoice_words (lower (or_empty t))) \<and>
      (detect_document_type (Inr (p # ps)) = Contract \<longleftrightarrow>
         \<not> any_word_in invoice_words (lower (or_empty t)) \<and>
         any_word_in contract_words (lower (or_empty t))) \<and>
      (detect_document_type (Inr (p # ps)) = Statement \<longleftrightarrow>
         \<not> any_word_in invoice_words (lower (or_empty t)) \<and>
         \<not> any_word_in contract_words (lower (or_empty t)) \<and>
         any_word_in statement_words (lower (or_empty t))) \<and>
      (detect_document_type (Inr (p # ps)) = Generic \<longleftrightarrow>
         \<not> any_word_in invoice_words (lower (or_empty t)) \<and>
         \<not> any_word_in contract_words (lower (or_empty t)) \<and>
         \<not> any_word_in statement_words (lower (or_empty t)))) \<and>
   (extract_text p = Inr t \<and> list_all is_space (or_empty t) \<longrightarrow>
      detect_document_type (Inr (p # ps)) = Generic) \<and>
   (extract_text p = Inl e \<longrightarrow> detect_document_type (Inr (p # ps)) = Generic) \<and>
   detect_document_type (Inr []) = Generic \<and>
   detect_document_type (Inl e) = Generic"
proof -
  have first: "detect_document_type (Inr (p # ps)) = detect_document_type (Inr [p])"
    by (simp add: detect_document_type_def)
  have range: "detect_document_type pdf \<in> {Invoice, Contract, Statement, Generic}"
    by (cases "detect_document_type pdf") simp_all
  have prio: "extract_text p = Inr t \<longrightarrow>
      (detect_document_type (Inr (p # ps)) = Invoice \<longleftrightarrow>
         any_word_in invoice_words (lower (or_empty t))) \<and>
      (detect_document_type (Inr (p # ps)) = Contract \<longleftrightarrow>
         \<not> any_word_in invoice_words (lower (or_empty t)) \<and>
         any_word_in contract_words (lower (or_empty t))) \<and>
      (detect_document_type (Inr (p # ps)) = Statement \<longleftrightarrow>
         \<not> any_word_in invoice_words (lower (or_empty t)) \<and>
         \<not> any_word_in contract_words (lower (or_empty t)) \<and>
         any_word_in statement_words (lower (or_empty t))) \<and>
      (detect_document_type (Inr (p # ps)) = Generic \<longleftrightarrow>
         \<not> any_word_in invoice_words (lower (or_empty t)) \<and>
         \<not> any_word_in contract_words (lower (or_empty t)) \<and>
         \<not> any_word_in statement_words (lower (or_empty t)))"
    by (simp add: detect_document_type_def classify_text_def)
  have blank: "extract_text p = Inr t \<and> list_all is_space (or_empty t) \<longrightarrow>
      detect_document_type (Inr (p # ps)) = Generic"
  proof
    assume h: "extract_text p = Inr t \<and> list_all is_space (or_empty t)"
    then have "lower (or_empty t) = or_empty t" by (simp add: lower_all_space)
    then have "classify_text (lower (or_empty t)) = Generic"
      using h by (simp add: classify_space)
    then show "detect_document_type (Inr (p # ps)) = Generic"
      using h by (simp add: detect_document_type_def)
  qed
  have exc: "extract_text p = Inl e \<longrightarrow> detect_document_type (Inr (p # ps)) = Generic"
    by (simp add: detect_document_type_def)
  have none: "detect_document_type (Inr []) = Generic"
    by (simp add: detect_document_type_def classify_empty)
  have opn: "detect_document_type (Inl e) = Generic"
    by (simp add: detect_document_type_def)
  show ?thesis using first range prio blank exc none opn by blast
qed

theorem C7_document_type_classifier_witness:
  "extract_text \<lparr>extract_text = Inr (Some ''Service Agreement No 12''), extract_tables = Inr []\<rparr>
     = Inr (Some ''Service Agreement No 12'') \<and>
   \<not> any_word_in invoice_words (lower (or_empty (Some ''Service Agreement No 12''))) \<and>
   any_word_in contract_words (lower (or_empty (Some ''Service Agreement No 12''))) \<and>
   detect_document_type
     (Inr [\<lparr>extract_text = Inr (Some ''Service Agreement No 12''), extract_tables = Inr []\<rparr>,
           \<lparr>extract_text = Inr (Some ''Invoice''), extract_tables = Inr []\<rparr>]) = Contract \<and>
   list_all is_space (or_empty (Some ''  '')) \<and>
   detect_document_type (Inr [\<lparr>extract_text = Inr (Some ''  ''), extract_tables = Inr []\<rparr>])
     = Generic \<and>
   detect_document_type (Inr [\<lparr>extract_text = Inl ''damaged'', extract_tables = Inr []\<rparr>])
     = Generic"
proof -
  let ?p = "\<lparr>extract_text = Inr (Some ''Service Agreement No 12''), extract_tables = Inr []\<rparr>"
  let ?q = "\<lparr>extract_text = Inr (Some ''Invoice''), extract_tables = Inr []\<rparr>"
  let ?b = "\<lparr>extract_text = Inr (Some ''  ''), extract_tables = Inr []\<rparr>"
  let ?x = "\<lparr>extract_text = Inl ''damaged'', extract_tables = Inr []\<rparr>"
  have p: "extract_text ?p = Inr (Some ''Service Agreement No 12'')" by simp
  have ni: "\<not> any_word_in invoice_words (lower (or_empty (Some ''Service Agreement No 12'')))"
    by code_simp
  have ct: "any_word_in contract_words (lower (or_empty (Some ''Service Agreement No 12'')))"
    by code_simp
  have sp: "list_all is_space (or_empty (Some ''  ''))" by code_simp
  have b: "extract_text ?b = Inr (Some ''  '')" by simp
  have x: "extract_text ?x = Inl ''damaged''" by simp
  have r1: "detect_document_type (Inr [?p, ?q]) = Contract"
    using C7_document_type_classifier [of ?p "[?q]" "Inl []" "Some ''Service Agreement No 12''" "[]"]
      p ni ct by blast
  have r2: "detect_document_type (Inr [?b]) = Generic"
    using C7_document_type_classifier [of ?b "[]" "Inl []" "Some ''  ''" "[]"] b sp by blast
  have r3: "detect_document_type (Inr [?x]) = Generic"
    using C7_document_type_classifier [of ?x "[]" "Inl []" None "''damaged''"] x by blast
  show ?thesis using p ni ct r1 sp r2 r3 by blast
qed


section \<open>Facts about the primitives\<close>

lemma first_some_prop: "first_some f xs = Some r \<Longrightarrow> \<exists>x\<in>set xs. f x = Some r"
  by (induction xs) (auto split: option.splits)

lemma float_lit_nonzero:
  "float_lit (1 / 2) \<noteq> 0" "float_lit (3 / 5) \<noteq> 0" "float_lit (13 / 20) \<noteq> 0"
  "float_lit (7 / 10) \<noteq> 0" "float_lit (3 / 4) \<noteq> 0" "float_lit (4 / 5) \<noteq> 0"
  "float_lit (41 / 50) \<noteq> 0" "float_lit (17 / 20) \<noteq> 0" "float_lit (9 / 10) \<noteq> 0"
  "float_lit (19 / 20) \<noteq> 0"
  by (simp_all add: float_literals)

lemma labeled_date_cases:
  "extract_labeled_date re text labels = (VNone, 0) \<or>
   found_at {float_lit (9 / 10), float_lit (7 / 10)} (extract_labeled_date re text labels)"
  unfolding extract_labeled_date_def found_at_def
  by (auto split: option.splits dest!: first_some_prop)

lemma labeled_amount_cases:
  "extract_labeled_amount re text labels = (VNone, 0) \<or>
   found_at {float_lit (9 / 10), float_lit (13 / 20)} (extract_labeled_amount re text labels)"
  unfolding extract_labeled_amount_def found_at_def
  by (auto simp: Let_def split: option.splits if_splits dest!: first_some_prop)

lemma labeled_value_cases:
  "extract_labeled_value re text labels = (VNone, 0) \<or>
   found_at {float_lit (4 / 5)} (extract_labeled_value re text labels)"
  unfolding extract_labeled_value_def found_at_def
  by (auto simp: Let_def split: option.splits if_splits dest!: first_some_prop)

lemma entity_name_cases:
  "extract_entity_name re text labels = (VNone, 0) \<or>
   found_at {float_lit (17 / 20), float_lit (1 / 2)} (extract_entity_name re text labels)"
  unfolding extract_entity_name_def found_at_def
  by (auto simp: Let_def split: option.splits if_splits dest!: first_some_prop)

lemma address_cases:
  "extract_address re text et = (VNone, 0) \<or>
   found_at {float_lit (3 / 5)} (extract_address re text et)"
  unfolding extract_address_def found_at_def
  by (auto split: option.splits)

lemma tax_id_cases:
  "extract_tax_id re text labels = (VNone, 0) \<or>
   found_at {float_lit (9 / 10)} (extract_tax_id re text labels)"
  unfolding extract_tax_id_def found_at_def
  by (auto split: option.splits dest!: first_some_prop)

lemma tax_rate_cases:
  "extract_tax_rate re text = (VNone, 0) \<or>
   found_at {float_lit (17 / 20)} (extract_tax_rate re text)"
  unfolding extract_tax_rate_def found_at_def
  by (auto split: option.splits dest!: first_some_prop)

lemma search_ranked_cases:
  "search_ranked re patterns text = (VNone, 0) \<or>
   found_at (snd ` set patterns) (search_ranked re patterns text)"
  unfolding search_ranked_def found_at_def
  by (force split: option.splits dest!: first_some_prop)

lemma detect_currency_cases:
  "detect_currency re text = (VNone, 0) \<or>
   found_at {float_lit (17 / 20)} (detect_currency re text)"
  unfolding detect_currency_def found_at_def
  by (auto simp: Let_def split: list.splits)

lemma invoice_number_cases:
  "extract_invoice_number re text = (VNone, 0) \<or>
   found_at (snd ` set invoice_number_patterns) (extract_invoice_number re text)"
  unfolding extract_invoice_number_def found_at_def
  by (force simp: Let_def split: option.splits if_splits dest!: first_some_prop)

lemma payment_terms_levels:
  "snd ` set payment_terms_patterns =
     {float_lit (9 / 10), float_lit (17 / 20), float_lit (4 / 5), float_lit (3 / 4)}"
  by (auto simp: payment_terms_patterns_def)

lemma bank_info_levels:
  "snd ` set bank_info_patterns = {float_lit (19 / 20), float_lit (4 / 5), float_lit (9 / 10)}"
  by (auto simp: bank_info_patterns_def)

lemma found_at_coupled:
  "0 \<notin> levels \<Longrightarrow> r = (VNone, 0) \<or> found_at levels r \<Longrightarrow> coupled r \<and> outcome levels r"
  by (auto simp: coupled_def outcome_def found_at_def)

section \<open>Claims about the primitives\<close>

text \<open>
  C4, as stated: for every primitive and for the contract-parties extractor, the value is
  \<^verbatim>\<open>None\<close> exactly when the confidence is 0.0. The contract-parties extractor breaks it:
  when it finds nothing it returns the empty list, not \<^verbatim>\<open>None\<close>, with confidence 0.0.
\<close>

theorem C4_contract_parties_counterexample:
  "\<not> coupled (extract_contract_parties no_match [])"
  by (simp add: coupled_def extract_contract_parties_def no_match_def)

text \<open>
  C4, amended: for every matcher, text and label list, each of the ten primitives returns
  either \<^verbatim>\<open>None\<close> with confidence 0.0 or a string with one of its non-zero confidence
  levels, so its value is \<^verbatim>\<open>None\<close> exactly when its confidence is 0.0; the
  contract-parties extractor never returns \<^verbatim>\<open>None\<close>: its value is a list, which is empty
  exactly when its confidence is 0.0.
\<close>

theorem C4_value_confidence_coupling:
  "coupled (extract_labeled_date re text labels) \<and>
   outcome {float_lit (9 / 10), float_lit (7 / 10)} (extract_labeled_date re text labels) \<and>
   coupled (extract_labeled_amount re text labels) \<and>
   outcome {float_lit (9 / 10), float_lit (13 / 20)} (extract_labeled_amount re text labels) \<and>
   coupled (extract_labeled_value re text labels) \<and>
   outcome {float_lit (4 / 5)} (extract_labeled_value re text labels) \<and>
   coupled (extract_entity_name re text labels) \<and>
   outcome {float_lit (17 / 20), float_lit (1 / 2)} (extract_entity_name re text labels) \<and>
   coupled (extract_address re text entity_type) \<and>
   outcome {float_lit (3 / 5)} (extract_address re text entity_type) \<and>
   coupled (extract_tax_id re text labels) \<and>
   outcome {float_lit (9 / 10)} (extract_tax_id re text labels) \<and>
   coupled (extract_tax_rate re text) \<and>
   outcome {float_lit (17 / 20)} (extract_tax_rate re text) \<and>
   coupled (extract_payment_terms re text) \<and>
   outcome {float_lit (9 / 10), float_lit (17 / 20), float_lit (4 / 5), float_lit (3 / 4)}
     (extract_payment_terms re text) \<and>
   coupled (extract_bank_info re text) \<and>
   outcome {float_lit (19 / 20), float_lit (4 / 5), float_lit (9 / 10)}
     (extract_bank_info re text) \<and>
   coupled (detect_currency re text) \<and>
   outcome {float_lit (17 / 20)} (detect_currency re text) \<and>
   (\<exists>parties. fst (extract_contract_parties re text) = VList parties \<and>
      (parties = [] \<longleftrightarrow> snd (extract_contract_parties re text) = 0)) \<and>
   snd (extract_contract_parties re text) \<in> {0, float_lit (9 / 10), float_lit (17 / 20)}"
proof -
  note nz = float_lit_nonzero
  note pr = search_ranked_cases [of re payment_terms_patterns "text",
      unfolded payment_terms_levels]
  note br = search_ranked_cases [of re bank_info_patterns "text", unfolded bank_info_levels]
  have d: "coupled (extract_labeled_date re text labels) \<and>
      outcome {float_lit (9 / 10), float_lit (7 / 10)} (extract_labeled_date re text labels)"
    by (rule found_at_coupled [OF _ labeled_date_cases]) (simp add: nz)
  have a: "coupled (extract_labeled_amount re text labels) \<and>
      outcome {float_lit (9 / 10), float_lit (13 / 20)} (extract_labeled_amount re text labels)"
    by (rule found_at_coupled [OF _ labeled_amount_cases]) (simp add: nz)
  have v: "coupled (extract_labeled_value re text labels) \<and>
      outcome {float_lit (4 / 5)} (extract_labeled_value re text labels)"
    by (rule found_at_coupled [OF _ labeled_value_cases]) (simp add: nz)
  have e: "coupled (extract_entity_name re text labels) \<and>
      outcome {float_lit (17 / 20), float_lit (1 / 2)} (extract_entity_name re text labels)"
    by (rule found_at_coupled [OF _ entity_name_cases]) (simp add: nz)
  have ad: "coupled (extract_address re text entity_type) \<and>
      outcome {float_lit (3 / 5)} (extract_address re text entity_type)"
    by (rule found_at_coupled [OF _ address_cases]) (simp add: nz)
  have ti: "coupled (extract_tax_id re text labels) \<and>
      outcome {float_lit (9 / 10)} (extract_tax_id re text labels)"
    by (rule found_at_coupled [OF _ tax_id_cases]) (simp add: nz)
  have tr: "coupled (extract_tax_rate re text) \<and>
      outcome {float_lit (17 / 20)} (extract_tax_rate re text)"
    by (rule found_at_coupled [OF _ tax_rate_cases]) (simp add: nz)
  have pt: "coupled (extract_payment_terms re text) \<and>
      outcome {float_lit (9 / 10), float_lit (17 / 20), float_lit (4 / 5), float_lit (3 / 4)}
        (extract_payment_terms re text)"
    unfolding extract_payment_terms_def
    by (rule found_at_coupled [OF _ pr]) (simp add: nz)
  have bi: "coupled (extract_bank_info re text) \<and>
      outcome {float_lit (19 / 20), float_lit (4 / 5), float_lit (9 / 10)}
        (extract_bank_info re text)"
    unfolding extract_bank_info_def
    by (rule found_at_coupled [OF _ br]) (simp add: nz)
  have cu: "coupled (detect_currency re text) \<and>
      outcome {float_lit (17 / 20)} (detect_currency re text)"
    by (rule found_at_coupled [OF _ detect_currency_cases]) (simp add: nz)
  have cp: "(\<exists>parties. fst (extract_contract_parties re text) = VList parties \<and>
      (parties = [] \<longleftrightarrow> snd (extract_contract_parties re text) = 0)) \<and>
      snd (extract_contract_parties re text) \<in> {0, float_lit (9 / 10), float_lit (17 / 20)}"
    by (auto simp: extract_contract_parties_def Let_def nz split: option.splits)
  show ?thesis using d a v e ad ti tr pt bi cu cp by blast
qed

text \<open>
  The coupling is met in both ways: a labelled date found at confidence 0.90, and nothing
  found.
\<close>

theorem C4_value_confidence_coupling_witness:
  "extract_labeled_date date_match ''Invoice Date: 2024-01-15'' [''invoice date'', ''date'']
     = (VStr ''2024-01-15'', float_lit (9 / 10)) \<and>
   coupled (extract_labeled_date date_match ''Invoice Date: 2024-01-15''
     [''invoice date'', ''date'']) \<and>
   extract_labeled_date no_match [] [''invoice date'', ''date''] = (VNone, 0) \<and>
   coupled (extract_labeled_date no_match [] [''invoice date'', ''date''])"
proof -
  have f: "extract_labeled_date date_match ''Invoice Date: 2024-01-15''
      [''invoice date'', ''date''] = (VStr ''2024-01-15'', float_lit (9 / 10))"
    by (simp add: extract_labeled_date_def date_match_def no_match_def DATE_PATTERNS_def
        strip_def is_space_def)
  have n: "extract_labeled_date no_match [] [''invoice date'', ''date''] = (VNone, 0)"
    by (simp add: extract_labeled_date_def no_match_def DATE_PATTERNS_def nearby_def
        find_def lower_def)
  show ?thesis
    using f n
      C4_value_confidence_coupling [of date_match "''Invoice Date: 2024-01-15''"
        "[''invoice date'', ''date'']" "[]"]
      C4_value_confidence_coupling [of no_match "[]" "[''invoice date'', ''date'']" "[]"]
    by blast
qed


section \<open>Facts about the extractors\<close>

lemma document_text_Cons:
  "extract_text p = Inr t \<Longrightarrow>
   document_text (p # ps) = or_empty t @ [CHR 0x0A] @ document_text ps"
  by (simp add: document_text_def)

lemma document_tables_Cons:
  "extract_tables p = Inr ts \<Longrightarrow>
   document_tables n (p # ps) = kept_tables n ts @ document_tables (Suc n) ps"
  by (simp add: document_tables_def enumerate_simps)

lemma read_invoice_pages_eq:
  "read_invoice_pages n pages (a, b) =
     (case first_exception True pages of
        Some exc \<Rightarrow> Inl exc
      | None \<Rightarrow> Inr (a @ document_text pages, b @ document_tables n pages))"
proof (induction pages arbitrary: n a b)
  case Nil
  then show ?case by (simp add: document_text_def document_tables_def)
next
  case (Cons p ps)
  show ?case
  proof (cases "extract_text p")
    case (Inl e)
    then show ?thesis by simp
  next
    case (Inr t)
    note t = this
    show ?thesis
    proof (cases "extract_tables p")
      case (Inl e)
      then show ?thesis using t by simp
    next
      case (Inr ts)
      then show ?thesis
        using t Cons.IH by (simp add: document_text_Cons document_tables_Cons split: option.splits)
    qed
  qed
qed

lemma read_contract_pages_eq:
  "read_contract_pages pages a =
     (case first_exception False pages of
        Some exc \<Rightarrow> Inl exc
      | None \<Rightarrow> Inr (a @ document_text pages))"
proof (induction pages arbitrary: a)
  case Nil
  then show ?case by (simp add: document_text_def)
next
  case (Cons p ps)
  show ?case
  proof (cases "extract_text p")
    case (Inl e)
    then show ?thesis by simp
  next
    case (Inr t)
    then show ?thesis
      using Cons.IH by (simp add: document_text_Cons split: option.splits)
  qed
qed

lemma read_generic_fail:
  "first_exception True pages = Some e \<Longrightarrow> read_generic_pages n pages (a, bl, b) = Inl e"
  by (induction pages arbitrary: n a bl b) (auto split: sum.splits)

lemma read_generic_ok:
  "first_exception True pages = None \<Longrightarrow>
   \<exists>blocks. read_generic_pages n pages (a, bl, b) =
     Inr (a @ document_text pages, blocks, b @ document_tables n pages)"
proof (induction pages arbitrary: n a bl b)
  case Nil
  then show ?case by (simp add: document_text_def document_tables_def)
next
  case (Cons p ps)
  from Cons.prems obtain t ts where t: "extract_text p = Inr t"
    and ts: "extract_tables p = Inr ts" and rest: "first_exception True ps = None"
    by (auto split: sum.splits)
  define bl' where "bl' = bl @
      (if strip (or_empty t) \<noteq> []
       then [JDict [(''page'', JInt (int n)), (''text'', JStr (or_empty t))]]
       else [])"
  have step: "read_generic_pages n (p # ps) (a, bl, b) =
      read_generic_pages (Suc n) ps (a @ or_empty t @ [CHR 0x0A], bl', b @ kept_tables n ts)"
    using t ts by (simp add: bl'_def)
  from Cons.IH [OF rest, of "Suc n" "a @ or_empty t @ [CHR 0x0A]" bl' "b @ kept_tables n ts"]
  obtain blocks where "read_generic_pages (Suc n) ps
      (a @ or_empty t @ [CHR 0x0A], bl', b @ kept_tables n ts) =
      Inr ((a @ or_empty t @ [CHR 0x0A]) @ document_text ps, blocks,
           (b @ kept_tables n ts) @ document_tables (Suc n) ps)"
    by blast
  then have "read_generic_pages n (p # ps) (a, bl, b) =
      Inr (a @ document_text (p # ps), blocks, b @ document_tables n (p # ps))"
    using step t ts by (simp add: document_text_Cons document_tables_Cons)
  then show ?case by blast
qed

lemma invoice_exception:
  "reader_exception True pdf = Some msg \<Longrightarrow> extract_invoice_data_ml re pdf = error_result msg"
  by (cases pdf)
     (simp_all add: reader_exception_def extract_invoice_data_ml_def read_invoice_pages_eq)

lemma invoice_read:
  "first_exception True pages = None \<Longrightarrow>
   extract_invoice_data_ml re (Inr pages) =
     (if strip (document_text pages) = []
      then error_result ''No text could be extracted from this PDF''
      else invoice_result re (document_text pages) (document_tables 1 pages) (length pages))"
  by (simp add: extract_invoice_data_ml_def read_invoice_pages_eq)

lemma contract_exception:
  "reader_exception False pdf = Some msg \<Longrightarrow> extract_contract_data_ml re pdf = error_result msg"
  by (cases pdf)
     (simp_all add: reader_exception_def extract_contract_data_ml_def read_contract_pages_eq)

lemma contract_read:
  "first_exception False pages = None \<Longrightarrow>
   extract_contract_data_ml re (Inr pages) =
     (if strip (document_text pages) = []
      then error_result ''No text could be extracted''
      else contract_result re (document_text pages) (length pages))"
  by (simp add: extract_contract_data_ml_def read_contract_pages_eq)

lemma statement_exception:
  "reader_exception True pdf = Some msg \<Longrightarrow>
   extract_financial_statement_ml re pdf = error_result msg"
  by (cases pdf)
     (simp_all add: reader_exception_def extract_financial_statement_ml_def
        read_invoice_pages_eq)

lemma statement_read:
  "first_exception True pages = None \<Longrightarrow>
   extract_financial_statement_ml re (Inr pages) =
     (if document_tables 1 pages = []
      then (if extract_statement_from_text re (document_text pages) \<noteq> []
            then fallback_result (extract_statement_from_text re (document_text pages))
            else error_result ''No tables found in financial statement'')
      else statement_result re (document_text pages) (document_tables 1 pages) (length pages))"
  by (simp add: extract_financial_statement_ml_def read_invoice_pages_eq Let_def)

lemma generic_exception:
  "reader_exception True pdf = Some msg \<Longrightarrow> extract_generic_data_ml re pdf = error_result msg"
  by (cases pdf)
     (simp_all add: reader_exception_def extract_generic_data_ml_def read_generic_fail)

lemma generic_read:
  "first_exception True pages = None \<Longrightarrow>
   \<exists>blocks. extract_generic_data_ml re (Inr pages) =
     generic_result re (document_text pages) blocks (document_tables 1 pages) (length pages)"
proof -
  assume "first_exception True pages = None"
  from read_generic_ok [OF this, of 1 "[]" "[]" "[]"]
  obtain blocks where "read_generic_pages 1 pages ([], [], []) =
      Inr (document_text pages, blocks, document_tables 1 pages)"
    by auto
  then show ?thesis by (auto simp: extract_generic_data_ml_def)
qed

lemma no_exception_pages:
  "reader_exception b pdf = None \<Longrightarrow> \<exists>pages. pdf = Inr pages \<and> first_exception b pages = None"
  by (cases pdf) (simp_all add: reader_exception_def)

lemma generic_confidence_levels:
  "generic_confidence t ts \<in> {float_lit (1 / 2), float_lit (3 / 4), float_lit (4 / 5)}"
  by (simp add: generic_confidence_def)


section \<open>Claims about the extractors\<close>

text \<open>
  C9: an exception of the reader, raised when the file is opened or when the text or the
  tables of any page are read, ends every extractor with the error result of its message:
  no success, no data, confidence 0.0, no review flag, the message as error. The contract
  extractor reads no tables, so only the text reads can fail there. Every extractor
  returns a result for every input, and that result is an error result or a success
  without error.
\<close>

theorem C9_reader_exceptions_become_error_results:
  "(reader_exception True pdf = Some msg \<longrightarrow>
      extract_invoice_data_ml re pdf = error_result msg \<and>
      extract_financial_statement_ml re pdf = error_result msg \<and>
      extract_generic_data_ml re pdf = error_result msg) \<and>
   (reader_exception False pdf = Some msg \<longrightarrow>
      extract_contract_data_ml re pdf = error_result msg) \<and>
   error_result msg =
     \<lparr>success = False, data = [], confidence = 0, field_confidences = [],
      error = Some msg, warnings = [], requires_review = False\<rparr> \<and>
   ((\<exists>m. extract_invoice_data_ml re pdf = error_result m) \<or>
    success (extract_invoice_data_ml re pdf) \<and> error (extract_invoice_data_ml re pdf) = None) \<and>
   ((\<exists>m. extract_contract_data_ml re pdf = error_result m) \<or>
    success (extract_contract_data_ml re pdf) \<and>
    error (extract_contract_data_ml re pdf) = None) \<and>
   ((\<exists>m. extract_financial_statement_ml re pdf = error_result m) \<or>
    success (extract_financial_statement_ml re pdf) \<and>
    error (extract_financial_statement_ml re pdf) = None) \<and>
   ((\<exists>m. extract_generic_data_ml re pdf = error_result m) \<or>
    success (extract_generic_data_ml re pdf) \<and> error (extract_generic_data_ml re pdf) = None)"
proof -
  have a: "reader_exception True pdf = Some msg \<longrightarrow>
      extract_invoice_data_ml re pdf = error_result msg \<and>
      extract_financial_statement_ml re pdf = error_result msg \<and>
      extract_generic_data_ml re pdf = error_result msg"
    by (simp add: invoice_exception statement_exception generic_exception)
  have b: "reader_exception False pdf = Some msg \<longrightarrow>
      extract_contract_data_ml re pdf = error_result msg"
    by (simp add: contract_exception)
  have c: "error_result msg =
     \<lparr>success = False, data = [], confidence = 0, field_confidences = [],
      error = Some msg, warnings = [], requires_review = False\<rparr>"
    by (simp add: error_result_def)
  have i: "(\<exists>m. extract_invoice_data_ml re pdf = error_result m) \<or>
    success (extract_invoice_data_ml re pdf) \<and> error (extract_invoice_data_ml re pdf) = None"
  proof (cases "reader_exception True pdf")
    case (Some e)
    then show ?thesis using invoice_exception by blast
  next
    case None
    then obtain pages where "pdf = Inr pages" "first_exception True pages = None"
      using no_exception_pages by blast
    then show ?thesis by (auto simp: invoice_read invoice_result_def Let_def)
  qed
  have k: "(\<exists>m. extract_contract_data_ml re pdf = error_result m) \<or>
    success (extract_contract_data_ml re pdf) \<and> error (extract_contract_data_ml re pdf) = None"
  proof (cases "reader_exception False pdf")
    case (Some e)
    then show ?thesis using contract_exception by blast
  next
    case None
    then obtain pages where "pdf = Inr pages" "first_exception False pages = None"
      using no_exception_pages by blast
    then show ?thesis by (auto simp: contract_read contract_result_def Let_def)
  qed
  have s: "(\<exists>m. extract_financial_statement_ml re pdf = error_result m) \<or>
    success (extract_financial_statement_ml re pdf) \<and>
    error (extract_financial_statement_ml re pdf) = None"
  proof (cases "reader_exception True pdf")
    case (Some e)
    then show ?thesis using statement_exception by blast
  next
    case None
    then obtain pages where "pdf = Inr pages" "first_exception True pages = None"
      using no_exception_pages by blast
    then show ?thesis
      by (auto simp: statement_read statement_result_def fallback_result_def)
  qed
  have g: "(\<exists>m. extract_generic_data_ml re pdf = error_result m) \<or>
    success (extract_generic_data_ml re pdf) \<and> error (extract_generic_data_ml re pdf) = None"
  proof (cases "reader_exception True pdf")
    case (Some e)
    then show ?thesis using generic_exception by blast
  next
    case None
    then obtain pages where p: "pdf = Inr pages" "first_exception True pages = None"
      using no_exception_pages by blast
    then obtain blocks where "extract_generic_data_ml re pdf =
        generic_result re (document_text pages) blocks (document_tables 1 pages) (length pages)"
      using generic_read by blast
    then show ?thesis by (simp add: generic_result_def)
  qed
  show ?thesis using a b c i k s g by blast
qed

text \<open>
  A document whose second page cannot be read: the first page is fine, the text of the
  second raises. And a document whose only page has text but whose tables cannot be read:
  the three extractors that read tables fail, the contract extractor succeeds.
\<close>

theorem C9_reader_exceptions_witness:
  "reader_exception True
     (Inr [\<lparr>extract_text = Inr (Some ''Agreement''), extract_tables = Inr []\<rparr>,
           \<lparr>extract_text = Inl ''page is damaged'', extract_tables = Inr []\<rparr>])
     = Some ''page is damaged'' \<and>
   extract_invoice_data_ml no_match
     (Inr [\<lparr>extract_text = Inr (Some ''Agreement''), extract_tables = Inr []\<rparr>,
           \<lparr>extract_text = Inl ''page is damaged'', extract_tables = Inr []\<rparr>])
     = error_result ''page is damaged'' \<and>
   reader_exception False
     (Inr [\<lparr>extract_text = Inr (Some ''Agreement''), extract_tables = Inr []\<rparr>,
           \<lparr>extract_text = Inl ''page is damaged'', extract_tables = Inr []\<rparr>])
     = Some ''page is damaged'' \<and>
   extract_contract_data_ml no_match
     (Inr [\<lparr>extract_text = Inr (Some ''Agreement''), extract_tables = Inr []\<rparr>,
           \<lparr>extract_text = Inl ''page is damaged'', extract_tables = Inr []\<rparr>])
     = error_result ''page is damaged'' \<and>
   reader_exception True
     (Inr [\<lparr>extract_text = Inr (Some ''Agreement''), extract_tables = Inl ''no tables''\<rparr>])
     = Some ''no tables'' \<and>
   extract_generic_data_ml no_match
     (Inr [\<lparr>extract_text = Inr (Some ''Agreement''), extract_tables = Inl ''no tables''\<rparr>])
     = error_result ''no tables'' \<and>
   extract_financial_statement_ml no_match
     (Inr [\<lparr>extract_text = Inr (Some ''Agreement''), extract_tables = Inl ''no tables''\<rparr>])
     = error_result ''no tables'' \<and>
   success (extract_contract_data_ml no_match
     (Inr [\<lparr>extract_text = Inr (Some ''Agreement''), extract_tables = Inl ''no tables''\<rparr>]))"
proof -
  let ?d = "Inr [\<lparr>extract_text = Inr (Some ''Agreement''), extract_tables = Inr []\<rparr>,
                 \<lparr>extract_text = Inl ''page is damaged'', extract_tables = Inr []\<rparr>] :: pdf"
  let ?t = "Inr [\<lparr>extract_text = Inr (Some ''Agreement''),
                  extract_tables = Inl ''no tables''\<rparr>] :: pdf"
  have d1: "reader_exception True ?d = Some ''page is damaged''"
    by (simp add: reader_exception_def)
  have d2: "reader_exception False ?d = Some ''page is damaged''"
    by (simp add: reader_exception_def)
  have t1: "reader_exception True ?t = Some ''no tables''"
    by (simp add: reader_exception_def)
  have t2: "reader_exception False ?t = None"
    by (simp add: reader_exception_def)
  note cd = C9_reader_exceptions_become_error_results [of ?d "''page is damaged''" no_match]
  note ct = C9_reader_exceptions_become_error_results [of ?t "''no tables''" no_match]
  have e: "\<And>m. extract_contract_data_ml no_match ?t \<noteq> error_result m"
    by (simp add: extract_contract_data_ml_def or_empty_def strip_def is_space_def
        contract_result_def Let_def error_result_def)
  have s: "success (extract_contract_data_ml no_match ?t)" using ct e by blast
  show ?thesis using cd ct d1 d2 t1 s by blast
qed

text \<open>
  C8 at a document of one page without any text and without tables, for every matcher:
  the invoice and the contract extractor return their error results, the statement
  extractor returns the error result of a document without tables, and the generic
  extractor returns a success of confidence 0.50 and no error. On a page without text
  that has a table of two empty rows, the statement extractor returns a success of
  confidence 0.82 as well.
\<close>

theorem C8_blank_document_results:
  "extract_invoice_data_ml re (Inr [\<lparr>extract_text = Inr None, extract_tables = Inr []\<rparr>])
     = error_result ''No text could be extracted from this PDF'' \<and>
   extract_contract_data_ml re (Inr [\<lparr>extract_text = Inr None, extract_tables = Inr []\<rparr>])
     = error_result ''No text could be extracted'' \<and>
   extract_financial_statement_ml no_match
       (Inr [\<lparr>extract_text = Inr None, extract_tables = Inr []\<rparr>])
     = error_result ''No tables found in financial statement'' \<and>
   success (extract_generic_data_ml re
     (Inr [\<lparr>extract_text = Inr None, extract_tables = Inr []\<rparr>])) \<and>
   confidence (extract_generic_data_ml re
     (Inr [\<lparr>extract_text = Inr None, extract_tables = Inr []\<rparr>])) = float_lit (1 / 2) \<and>
   error (extract_generic_data_ml re
     (Inr [\<lparr>extract_text = Inr None, extract_tables = Inr []\<rparr>])) = None \<and>
   success (extract_financial_statement_ml re
     (Inr [\<lparr>extract_text = Inr None,
             extract_tables = Inr [[[None, None], [None, None]]]\<rparr>])) \<and>
   confidence (extract_financial_statement_ml re
     (Inr [\<lparr>extract_text = Inr None,
             extract_tables = Inr [[[None, None], [None, None]]]\<rparr>])) = float_lit (41 / 50) \<and>
   error (extract_financial_statement_ml re
     (Inr [\<lparr>extract_text = Inr None,
             extract_tables = Inr [[[None, None], [None, None]]]\<rparr>])) = None"
proof -
  have i: "extract_invoice_data_ml re
      (Inr [\<lparr>extract_text = Inr None, extract_tables = Inr []\<rparr>])
     = error_result ''No text could be extracted from this PDF''"
    by (simp add: extract_invoice_data_ml_def or_empty_def kept_tables_def strip_def
        is_space_def)
  have c: "extract_contract_data_ml re
      (Inr [\<lparr>extract_text = Inr None, extract_tables = Inr []\<rparr>])
     = error_result ''No text could be extracted''"
    by (simp add: extract_contract_data_ml_def or_empty_def strip_def is_space_def)
  have s: "extract_financial_statement_ml no_match
       (Inr [\<lparr>extract_text = Inr None, extract_tables = Inr []\<rparr>])
     = error_result ''No tables found in financial statement''"
    by (simp add: extract_financial_statement_ml_def or_empty_def kept_tables_def
        extract_statement_from_text_def statement_items_def no_match_def)
  have g: "success (extract_generic_data_ml re
     (Inr [\<lparr>extract_text = Inr None, extract_tables = Inr []\<rparr>])) \<and>
   confidence (extract_generic_data_ml re
     (Inr [\<lparr>extract_text = Inr None, extract_tables = Inr []\<rparr>])) = float_lit (1 / 2) \<and>
   error (extract_generic_data_ml re
     (Inr [\<lparr>extract_text = Inr None, extract_tables = Inr []\<rparr>])) = None"
    by (simp add: extract_generic_data_ml_def or_empty_def kept_tables_def generic_result_def
        generic_confidence_def)
  have t: "success (extract_financial_statement_ml re
     (Inr [\<lparr>extract_text = Inr None,
             extract_tables = Inr [[[None, None], [None, None]]]\<rparr>])) \<and>
   confidence (extract_financial_statement_ml re
     (Inr [\<lparr>extract_text = Inr None,
             extract_tables = Inr [[[None, None], [None, None]]]\<rparr>])) = float_lit (41 / 50) \<and>
   error (extract_financial_statement_ml re
     (Inr [\<lparr>extract_text = Inr None,
             extract_tables = Inr [[[None, None], [None, None]]]\<rparr>])) = None"
    by (simp add: extract_financial_statement_ml_def or_empty_def kept_tables_def usable_def
        enumerate_simps statement_result_def)
  show ?thesis using i c s g t by blast
qed

text \<open>
  C1, as stated: on every result, \<^verbatim>\<open>requires_review\<close> is \<^verbatim>\<open>success and confidence < 0.60\<close>.
  The text-layout fallback of the statement extractor breaks it: a document without tables
  whose text has the line \<^verbatim>\<open>Revenue  100\<close> gives a success of confidence 0.65 that is
  flagged for review.
\<close>

theorem C1_statement_fallback_counterexample:
  "success (extract_financial_statement_ml revenue_match
     (Inr [\<lparr>extract_text = Inr (Some ''Revenue  100''), extract_tables = Inr []\<rparr>])) \<and>
   requires_review (extract_financial_statement_ml revenue_match
     (Inr [\<lparr>extract_text = Inr (Some ''Revenue  100''), extract_tables = Inr []\<rparr>])) \<and>
   confidence (extract_financial_statement_ml revenue_match
     (Inr [\<lparr>extract_text = Inr (Some ''Revenue  100''), extract_tables = Inr []\<rparr>]))
     = float_lit (13 / 20) \<and>
   \<not> float_lit (13 / 20) < float_lit (3 / 5) \<and>
   \<not> review_invariant (extract_financial_statement_ml revenue_match
     (Inr [\<lparr>extract_text = Inr (Some ''Revenue  100''), extract_tables = Inr []\<rparr>]))"
proof -
  let ?r = "extract_financial_statement_ml revenue_match
     (Inr [\<lparr>extract_text = Inr (Some ''Revenue  100''), extract_tables = Inr []\<rparr>])"
  have items: "statement_items revenue_match (''Revenue  100'' @ [CHR 0x0A]) \<noteq> []"
    by (simp add: statement_items_def revenue_match_def no_match_def)
  have r: "?r = fallback_result
      (extract_statement_from_text revenue_match (''Revenue  100'' @ [CHR 0x0A]))"
    using items
    by (simp add: extract_financial_statement_ml_def or_empty_def kept_tables_def
        extract_statement_from_text_def Let_def)
  have lt: "\<not> float_lit (13 / 20) < float_lit (3 / 5)"
    by (simp add: float_literals)
  have s: "success ?r" and q: "requires_review ?r" and c: "confidence ?r = float_lit (13 / 20)"
    by (simp_all only: r fallback_result_def extraction_result.simps)
  have "\<not> review_invariant ?r"
    using s q c lt by (simp add: review_invariant_def)
  then show ?thesis using s q c lt by blast
qed

text \<open>
  C1, amended. An error result is never flagged. A successful invoice or contract result
  reports the weighted confidence rounded to two decimals and is flagged exactly when the
  weighted confidence before rounding is below 0.60. The statement extractor flags exactly
  its text-layout fallback, which is reached when no usable table was read and whose
  confidence is 0.65; its result from tables has confidence 0.82 and is not flagged. A
  successful generic result has confidence 0.50, 0.75 or 0.80, and at 0.75 and 0.80 it is
  not flagged.
\<close>

theorem C1_review_flag:
  "review_invariant (error_result msg) \<and>
   ((\<exists>m. extract_invoice_data_ml re pdf = error_result m) \<or>
    (\<exists>pages. pdf = Inr pages \<and>
       success (extract_invoice_data_ml re pdf) \<and>
       confidence (extract_invoice_data_ml re pdf) =
         py_round2 (invoice_confidence re (document_text pages)) \<and>
       (requires_review (extract_invoice_data_ml re pdf) \<longleftrightarrow>
          invoice_confidence re (document_text pages) < float_lit (3 / 5)))) \<and>
   ((\<exists>m. extract_contract_data_ml re pdf = error_result m) \<or>
    (\<exists>pages. pdf = Inr pages \<and>
       success (extract_contract_data_ml re pdf) \<and>
       confidence (extract_contract_data_ml re pdf) =
         py_round2 (contract_confidence re (document_text pages)) \<and>
       (requires_review (extract_contract_data_ml re pdf) \<longleftrightarrow>
          contract_confidence re (document_text pages) < float_lit (3 / 5)))) \<and>
   ((\<exists>m. extract_financial_statement_ml re pdf = error_result m) \<or>
    (\<exists>pages. pdf = Inr pages \<and> document_tables 1 pages = [] \<and>
       success (extract_financial_statement_ml re pdf) \<and>
       confidence (extract_financial_statement_ml re pdf) = float_lit (13 / 20) \<and>
       requires_review (extract_financial_statement_ml re pdf)) \<or>
    (\<exists>pages. pdf = Inr pages \<and> document_tables 1 pages \<noteq> [] \<and>
       success (extract_financial_statement_ml re pdf) \<and>
       confidence (extract_financial_statement_ml re pdf) = float_lit (41 / 50) \<and>
       \<not> requires_review (extract_financial_statement_ml re pdf))) \<and>
   ((\<exists>m. extract_generic_data_ml re pdf = error_result m) \<or>
    success (extract_generic_data_ml re pdf) \<and>
    confidence (extract_generic_data_ml re pdf) \<in>
      {float_lit (1 / 2), float_lit (3 / 4), float_lit (4 / 5)} \<and>
    (confidence (extract_generic_data_ml re pdf) \<noteq> float_lit (1 / 2) \<longrightarrow>
       \<not> requires_review (extract_generic_data_ml re pdf)))"
proof -
  have e: "review_invariant (error_result msg)"
    by (simp add: review_invariant_def error_result_def)
  have i: "(\<exists>m. extract_invoice_data_ml re pdf = error_result m) \<or>
    (\<exists>pages. pdf = Inr pages \<and>
       success (extract_invoice_data_ml re pdf) \<and>
       confidence (extract_invoice_data_ml re pdf) =
         py_round2 (invoice_confidence re (document_text pages)) \<and>
       (requires_review (extract_invoice_data_ml re pdf) \<longleftrightarrow>
          invoice_confidence re (document_text pages) < float_lit (3 / 5)))"
  proof (cases "reader_exception True pdf")
    case (Some x)
    then show ?thesis using invoice_exception by blast
  next
    case None
    then obtain pages where "pdf = Inr pages" "first_exception True pages = None"
      using no_exception_pages by blast
    then show ?thesis by (auto simp: invoice_read invoice_result_def Let_def)
  qed
  have c: "(\<exists>m. extract_contract_data_ml re pdf = error_result m) \<or>
    (\<exists>pages. pdf = Inr pages \<and>
       success (extract_contract_data_ml re pdf) \<and>
       confidence (extract_contract_data_ml re pdf) =
         py_round2 (contract_confidence re (document_text pages)) \<and>
       (requires_review (extract_contract_data_ml re pdf) \<longleftrightarrow>
          contract_confidence re (document_text pages) < float_lit (3 / 5)))"
  proof (cases "reader_exception False pdf")
    case (Some x)
    then show ?thesis using contract_exception by blast
  next
    case None
    then obtain pages where "pdf = Inr pages" "first_exception False pages = None"
      using no_exception_pages by blast
    then show ?thesis by (auto simp: contract_read contract_result_def Let_def)
  qed
  have s: "(\<exists>m. extract_financial_statement_ml re pdf = error_result m) \<or>
    (\<exists>pages. pdf = Inr pages \<and> document_tables 1 pages = [] \<and>
       success (extract_financial_statement_ml re pdf) \<and>
       confidence (extract_financial_statement_ml re pdf) = float_lit (13 / 20) \<and>
       requires_review (extract_financial_statement_ml re pdf)) \<or>
    (\<exists>pages. pdf = Inr pages \<and> document_tables 1 pages \<noteq> [] \<and>
       success (extract_financial_statement_ml re pdf) \<and>
       confidence (extract_financial_statement_ml re pdf) = float_lit (41 / 50) \<and>
       \<not> requires_review (extract_financial_statement_ml re pdf))"
  proof (cases "reader_exception True pdf")
    case (Some x)
    then show ?thesis using statement_exception by blast
  next
    case None
    then obtain pages where "pdf = Inr pages" "first_exception True pages = None"
      using no_exception_pages by blast
    then show ?thesis
      by (auto simp: statement_read statement_result_def fallback_result_def)
  qed
  have g: "(\<exists>m. extract_generic_data_ml re pdf = error_result m) \<or>
    success (extract_generic_data_ml re pdf) \<and>
    confidence (extract_generic_data_ml re pdf) \<in>
      {float_lit (1 / 2), float_lit (3 / 4), float_lit (4 / 5)} \<and>
    (confidence (extract_generic_data_ml re pdf) \<noteq> float_lit (1 / 2) \<longrightarrow>
       \<not> requires_review (extract_generic_data_ml re pdf))"
  proof (cases "reader_exception True pdf")
    case (Some x)
    then show ?thesis using generic_exception by blast
  next
    case None
    then obtain pages where p: "pdf = Inr pages" "first_exception True pages = None"
      using no_exception_pages by blast
    then obtain blocks where "extract_generic_data_ml re pdf =
        generic_result re (document_text pages) blocks (document_tables 1 pages) (length pages)"
      using generic_read by blast
    then show ?thesis using generic_confidence_levels by (simp add: generic_result_def)
  qed
  show ?thesis using e i c s g by blast
qed

text \<open>
  The amended claim at work: the fallback result of the statement extractor, and a
  generic result of confidence 0.75 for a page of a hundred characters.
\<close>

theorem C1_review_flag_witness:
  "document_tables 1 [\<lparr>extract_text = Inr (Some ''Revenue  100''), extract_tables = Inr []\<rparr>]
     = [] \<and>
   success (extract_financial_statement_ml revenue_match
     (Inr [\<lparr>extract_text = Inr (Some ''Revenue  100''), extract_tables = Inr []\<rparr>])) \<and>
   confidence (extract_financial_statement_ml revenue_match
     (Inr [\<lparr>extract_text = Inr (Some ''Revenue  100''), extract_tables = Inr []\<rparr>]))
     = float_lit (13 / 20) \<and>
   requires_review (extract_financial_statement_ml revenue_match
     (Inr [\<lparr>extract_text = Inr (Some ''Revenue  100''), extract_tables = Inr []\<rparr>])) \<and>
   confidence (extract_generic_data_ml no_match
     (Inr [\<lparr>extract_text = Inr (Some (replicate 100 CHR ''x'')), extract_tables = Inr []\<rparr>]))
     = float_lit (3 / 4) \<and>
   float_lit (3 / 4) \<noteq> float_lit (1 / 2) \<and>
   \<not> requires_review (extract_generic_data_ml no_match
     (Inr [\<lparr>extract_text = Inr (Some (replicate 100 CHR ''x'')), extract_tables = Inr []\<rparr>]))"
proof -
  let ?p = "Inr [\<lparr>extract_text = Inr (Some ''Revenue  100''), extract_tables = Inr []\<rparr>] :: pdf"
  let ?q = "Inr [\<lparr>extract_text = Inr (Some (replicate 100 CHR ''x'')),
                  extract_tables = Inr []\<rparr>] :: pdf"
  have t: "document_tables 1
      [\<lparr>extract_text = Inr (Some ''Revenue  100''), extract_tables = Inr []\<rparr>] = []"
    by (simp add: document_tables_def enumerate_simps kept_tables_def)
  have items: "statement_items revenue_match (''Revenue  100'' @ [CHR 0x0A]) \<noteq> []"
    by (simp add: statement_items_def revenue_match_def no_match_def)
  have ok: "success (extract_financial_statement_ml revenue_match ?p)"
    using items
    by (simp add: extract_financial_statement_ml_def or_empty_def kept_tables_def
        extract_statement_from_text_def Let_def fallback_result_def)
  have ne: "\<And>m. extract_financial_statement_ml revenue_match ?p \<noteq> error_result m"
    using ok by (auto simp: error_result_def)
  note s = C1_review_flag [of "[]" revenue_match ?p]
  have f: "confidence (extract_financial_statement_ml revenue_match ?p) = float_lit (13 / 20) \<and>
      requires_review (extract_financial_statement_ml revenue_match ?p)"
    using s ne t by auto
  have gc: "confidence (extract_generic_data_ml no_match ?q) = float_lit (3 / 4)"
    by (simp add: extract_generic_data_ml_def or_empty_def kept_tables_def generic_result_def
        generic_confidence_def)
  have d: "float_lit (3 / 4) \<noteq> float_lit (1 / 2)" by (simp add: float_literals)
  have gs: "success (extract_generic_data_ml no_match ?q)"
    by (simp add: extract_generic_data_ml_def or_empty_def kept_tables_def generic_result_def)
  have gne: "\<And>m. extract_generic_data_ml no_match ?q \<noteq> error_result m"
    using gs by (auto simp: error_result_def)
  note g = C1_review_flag [of "[]" no_match ?q]
  have gr: "\<not> requires_review (extract_generic_data_ml no_match ?q)"
    using g gne gc d by auto
  show ?thesis using t ok f gc d gr by blast
qed

end
